theory Spec2Isabelle
  imports Complex_Main
begin

section \<open>Common ground: numbers, collaborators, observable actions\<close>

text \<open>
  The two programs of the repository, \<^verbatim>\<open>src/tea_meter.py\<close> (class \<^verbatim>\<open>TeaMeter\<close>) and
  \<^verbatim>\<open>src/parking_light.py\<close> (class \<^verbatim>\<open>ParkingSpotMonitor\<close>), are embedded below.

  Python floats are modelled by their exact values, as \<^typ>\<open>real\<close>: sums, differences,
  quotients and comparisons are the exact ones, so rounding of the binary format, infinities,
  NaN and the negative zero are outside the model. Python's unbounded \<^verbatim>\<open>int\<close> is \<^typ>\<open>int\<close>.

  The hardware and network collaborators (sonar, DHT sensor, button, LED, HTTP endpoint,
  file system, clock) are not part of the repository. Every call to one of them is an
  input of the model: the outcome of the call is a parameter of the function that makes
  it, and the call itself is recorded in the list of actions the function returns.
  Where a function calls the sonar in a loop, the parameter is a function from the
  index of the call to its outcome.
\<close>

datatype py_error = ZeroDivisionError | ValueError | KeyError | IOError

text \<open>\<^verbatim>\<open>self.sonar.get_distance()\<close> returns a float or raises.\<close>

datatype sonar_outcome = Distance real | Sonar_raises

text \<open>\<^verbatim>\<open>self.dht_sensor.read()\<close> returns a pair whose components may be \<^verbatim>\<open>None\<close>, or raises.\<close>

datatype dht_outcome = Dht_values "real option" "real option" | Dht_raises

datatype level = DEBUG | INFO | WARNING | ERROR

text \<open>The log messages of both programs, by the line that writes them, with the values
  they interpolate.\<close>

datatype msg =
    Tea_meter_initialized
  | Dht_returned_None
  | Dht_sensor_error
  | Sonar_sensor_error
  | Calibrating
  | Calibration_read nat real
  | Calibration_read_failed nat
  | Calibrated_distance real
  | Calibration_failed_default real
  | No_data_collected
  | Session_summary
  | Total_measurements nat
  | Session_data_saved
  | Max_avg_fill real real
  | Could_not_write
  | Unexpected_error_saving
  | Cup_removed
  | Cycle_status real real real
  | Cup_detected
  | Starting_session
  | Monitor_initialized
  | Attempt_failed nat
  | All_attempts_failed
  | Invalid_event_type string
  | Api_successful string
  | Api_failed string int
  | Api_timed_out string
  | Api_connection_error string
  | Api_request_error string
  | Api_unexpected_error string
  | Led_update_failed
  | Initializing_state
  | Initial_state bool real
  | Initial_reading_failed
  | State_changed_taken real
  | State_changed_empty real
  | Skipping_cycle

datatype action =
    Log level msg
  | Read_button
  | Read_dht
  | Read_sonar
  | Sleep real
  | Led_off
  | Led_on
  | Post string

text \<open>A scripted collaborator: the outcome of call \<open>i\<close> is the \<open>i\<close>-th element of a list.
  Past the end of the script the call raises; no function below calls that far when the
  script is as long as its loop bound.\<close>

definition replay :: "sonar_outcome list \<Rightarrow> nat \<Rightarrow> sonar_outcome" where
  "replay rs i = (if i < length rs then rs ! i else Sonar_raises)"

section \<open>The tea meter\<close>

subsection \<open>Configuration and state\<close>

definition DEFAULT_DISTANCE_TO_EMPTY_CUP_BOTTOM_CM :: real where
  "DEFAULT_DISTANCE_TO_EMPTY_CUP_BOTTOM_CM = 15"

definition CALIBRATION_DELAY_S :: real where
  "CALIBRATION_DELAY_S = 3 / 2"

definition CALIBRATION_READS :: nat where
  "CALIBRATION_READS = 5"

definition MIN_READING_INTERVAL_S :: real where
  "MIN_READING_INTERVAL_S = 1 / 10"

definition TEMP_READ_INTERVAL :: int where
  "TEMP_READ_INTERVAL = 2"

text \<open>A measurement is the tuple \<^verbatim>\<open>(current_time_str, temperature, humidity, fill_level)\<close>.\<close>

type_synonym measurement = "string \<times> real \<times> real \<times> real"

record tea_meter =
  measurement_data :: "measurement list"
  is_cup_present :: bool
  is_measuring :: bool
  calibrated_empty_cup_distance :: real
  temp_read_counter :: int
  last_temp :: real
  last_humidity :: real

text \<open>\<^verbatim>\<open>TeaMeter.__init__\<close>.\<close>

definition tea_meter_init :: tea_meter where
  "tea_meter_init =
     \<lparr> measurement_data = [],
       is_cup_present = False,
       is_measuring = False,
       calibrated_empty_cup_distance = DEFAULT_DISTANCE_TO_EMPTY_CUP_BOTTOM_CM,
       temp_read_counter = 0,
       last_temp = - 1,
       last_humidity = - 1 \<rparr>"

definition csv_header :: string where
  "csv_header = ''Time,Temp,Hum,FillLevelCM''"

subsection \<open>Sensor access\<close>

text \<open>\<^verbatim>\<open>TeaMeter.read_environmental_data\<close>: returns \<^verbatim>\<open>(humidity, temperature)\<close>; the cache
  \<open>last_humidity\<close>, \<open>last_temp\<close> is written only when both values are present.\<close>

definition read_environmental_data ::
  "dht_outcome \<Rightarrow> tea_meter \<Rightarrow> (real \<times> real) \<times> tea_meter \<times> action list" where
  "read_environmental_data dht m =
     (case dht of
        Dht_values (Some hum) (Some temp) \<Rightarrow>
          ((hum, temp), m\<lparr>last_humidity := hum, last_temp := temp\<rparr>, [Read_dht])
      | Dht_values _ _ \<Rightarrow>
          ((last_humidity m, last_temp m), m, [Read_dht, Log WARNING Dht_returned_None])
      | Dht_raises \<Rightarrow>
          ((last_humidity m, last_temp m), m, [Read_dht, Log ERROR Dht_sensor_error]))"

text \<open>\<^verbatim>\<open>TeaMeter.get_distance_reading\<close>: \<^verbatim>\<open>distance if distance > 0 else None\<close>, and
  \<^verbatim>\<open>None\<close> when the sonar raises.\<close>

definition get_distance_reading :: "sonar_outcome \<Rightarrow> real option \<times> action list" where
  "get_distance_reading sonar =
     (case sonar of
        Distance distance \<Rightarrow> (if distance > 0 then Some distance else None, [Read_sonar])
      | Sonar_raises \<Rightarrow> (None, [Read_sonar, Log ERROR Sonar_sensor_error]))"

subsection \<open>Calibration\<close>

text \<open>Python's \<^verbatim>\<open>sum(xs) / len(xs)\<close> raises \<^verbatim>\<open>ZeroDivisionError\<close> on the empty list,
  and \<^verbatim>\<open>max(xs)\<close> raises \<^verbatim>\<open>ValueError\<close>.\<close>

definition py_mean :: "real list \<Rightarrow> py_error + real" where
  "py_mean xs = (if length xs = 0 then Inl ZeroDivisionError
                 else Inr (sum_list xs / real (length xs)))"

fun py_max :: "real list \<Rightarrow> py_error + real" where
  "py_max [] = Inl ValueError"
| "py_max (x # xs) = Inr (foldl max x xs)"

text \<open>One pass of the body of \<^verbatim>\<open>for i in range(CALIBRATION_READS)\<close>: the state of the loop
  is the list \<^verbatim>\<open>distances\<close> and the actions so far.\<close>

definition calibration_read ::
  "(nat \<Rightarrow> sonar_outcome) \<Rightarrow> real list \<times> action list \<Rightarrow> nat \<Rightarrow> real list \<times> action list" where
  "calibration_read sonar st i =
     (case get_distance_reading (sonar i) of
        (Some distance, acts) \<Rightarrow>
          (fst st @ [distance], snd st @ acts @ [Log DEBUG (Calibration_read (i + 1) distance)])
      | (None, acts) \<Rightarrow>
          (fst st, snd st @ acts @ [Log WARNING (Calibration_read_failed (i + 1))]))"

text \<open>\<^verbatim>\<open>TeaMeter.calibrate_empty_cup\<close>: the returned boolean, the new state and the actions,
  or the exception that escapes.\<close>

definition calibrate_empty_cup ::
  "(nat \<Rightarrow> sonar_outcome) \<Rightarrow> tea_meter \<Rightarrow> py_error + (bool \<times> tea_meter \<times> action list)" where
  "calibrate_empty_cup sonar m =
     (let (distances, acts) =
            foldl (calibration_read sonar) ([], [Log INFO Calibrating]) [0..<CALIBRATION_READS]
      in if distances \<noteq> [] then
           (case py_mean distances of
              Inl e \<Rightarrow> Inl e
            | Inr avg \<Rightarrow>
                Inr (True, m\<lparr>calibrated_empty_cup_distance := avg\<rparr>,
                     acts @ [Log INFO (Calibrated_distance avg)]))
         else
           Inr (False,
                m\<lparr>calibrated_empty_cup_distance := DEFAULT_DISTANCE_TO_EMPTY_CUP_BOTTOM_CM\<rparr>,
                acts @ [Log WARNING
                          (Calibration_failed_default DEFAULT_DISTANCE_TO_EMPTY_CUP_BOTTOM_CM)]))"

text \<open>\<^verbatim>\<open>TeaMeter.calculate_fill_level\<close>.\<close>

definition calculate_fill_level :: "tea_meter \<Rightarrow> real \<Rightarrow> real" where
  "calculate_fill_level m distance = calibrated_empty_cup_distance m - distance"

subsection \<open>Formatting\<close>

text \<open>Python's \<^verbatim>\<open>format(x, '.1f')\<close> prints the decimal with one fractional digit that is
  nearest to the exact value of \<open>x\<close>, a tie going to the even last digit, and a minus sign
  for every negative \<open>x\<close> (also when the digits are all zero).\<close>

definition digit_char :: "nat \<Rightarrow> char" where
  "digit_char d = ''0123456789'' ! d"

fun str_nat :: "nat \<Rightarrow> string" where
  "str_nat n = (if n < 10 then [digit_char n] else str_nat (n div 10) @ [digit_char (n mod 10)])"

declare str_nat.simps [simp del]

definition round_half_even :: "real \<Rightarrow> int" where
  "round_half_even x =
     (let f = \<lfloor>x\<rfloor>; r = x - of_int f
      in if r < 1 / 2 then f else if r > 1 / 2 then f + 1 else if even f then f else f + 1)"

definition format_1f :: "real \<Rightarrow> string" where
  "format_1f x =
     (let n = nat (round_half_even (\<bar>x\<bar> * 10))
      in (if x < 0 then ''-'' else []) @ str_nat (n div 10) @ ''.'' @ [digit_char (n mod 10)])"

definition newline :: string where
  "newline = [CHR 0x0A]"

text \<open>The line \<^verbatim>\<open>f"{row[0]},{row[1]:.1f},{row[2]:.1f},{row[3]:.1f}\n"\<close>.\<close>

fun format_row :: "measurement \<Rightarrow> string" where
  "format_row (time_str, temp, hum, fill) =
     time_str @ '','' @ format_1f temp @ '','' @ format_1f hum @ '','' @ format_1f fill @ newline"

subsection \<open>Persistence\<close>

text \<open>The part of the file system the program touches: the directory of the output file and
  the file itself (\<open>None\<close>: there is no such file). A fault of the file system is an input:
  \<^verbatim>\<open>os.makedirs\<close> raises, \<^verbatim>\<open>open\<close> raises, or the \<open>k\<close>-th call of \<^verbatim>\<open>f.write\<close> raises
  (the header is call 0). \<^verbatim>\<open>open(..., "w")\<close> also raises when the directory is missing.\<close>

record file_system =
  dir_exists :: bool
  file_content :: "string option"

datatype io_fault = Makedirs_fails | Open_fails | Write_fails nat

definition makedirs :: "io_fault option \<Rightarrow> file_system \<Rightarrow> py_error + file_system" where
  "makedirs fault fs =
     (if fault = Some Makedirs_fails then Inl IOError else Inr (fs\<lparr>dir_exists := True\<rparr>))"

definition open_w :: "io_fault option \<Rightarrow> file_system \<Rightarrow> py_error + file_system" where
  "open_w fault fs =
     (if fault = Some Open_fails \<or> \<not> dir_exists fs then Inl IOError
      else Inr (fs\<lparr>file_content := Some []\<rparr>))"

text \<open>A failed write leaves what the earlier writes put into the file.\<close>

definition f_write :: "io_fault option \<Rightarrow> nat \<Rightarrow> string \<Rightarrow> file_system \<Rightarrow> file_system \<times> (py_error + unit)" where
  "f_write fault k line fs =
     (if fault = Some (Write_fails k) then (fs, Inl IOError)
      else (fs\<lparr>file_content := Some (case file_content fs of None \<Rightarrow> line | Some c \<Rightarrow> c @ line)\<rparr>,
            Inr ()))"

text \<open>\<^verbatim>\<open>for row in self.measurement_data: ... f.write(line)\<close>; \<open>k\<close> counts the calls of
  \<^verbatim>\<open>f.write\<close>.\<close>

fun write_rows ::
  "io_fault option \<Rightarrow> nat \<Rightarrow> measurement list \<Rightarrow> file_system \<Rightarrow> file_system \<times> (py_error + unit)" where
  "write_rows fault k [] fs = (fs, Inr ())"
| "write_rows fault k (row # rows) fs =
     (case f_write fault k (format_row row) fs of
        (fs', Inl e) \<Rightarrow> (fs', Inl e)
      | (fs', Inr u) \<Rightarrow> write_rows fault (Suc k) rows fs')"

text \<open>The statements from \<^verbatim>\<open>os.makedirs\<close> to the end of the \<^verbatim>\<open>with\<close> block.\<close>

definition write_csv ::
  "io_fault option \<Rightarrow> measurement list \<Rightarrow> file_system \<Rightarrow> file_system \<times> (py_error + unit)" where
  "write_csv fault data fs =
     (case makedirs fault fs of
        Inl e \<Rightarrow> (fs, Inl e)
      | Inr fs1 \<Rightarrow>
          (case open_w fault fs1 of
             Inl e \<Rightarrow> (fs1, Inl e)
           | Inr fs2 \<Rightarrow>
               (case f_write fault 0 (csv_header @ newline) fs2 of
                  (fs3, Inl e) \<Rightarrow> (fs3, Inl e)
                | (fs3, Inr u) \<Rightarrow> write_rows fault 1 data fs3)))"

definition fill_level_of :: "measurement \<Rightarrow> real" where
  "fill_level_of row = snd (snd (snd row))"

text \<open>The block under \<^verbatim>\<open># Print summary statistics\<close>: the log line it writes, if any, or
  the exception it raises.\<close>

definition summary_statistics :: "measurement list \<Rightarrow> py_error + action list" where
  "summary_statistics data =
     (if data \<noteq> [] then
        (let fill_levels = map fill_level_of (filter (\<lambda>row. fill_level_of row > 0) data)
         in if fill_levels \<noteq> [] then
              (case py_max fill_levels of
                 Inl e \<Rightarrow> Inl e
               | Inr max_fill \<Rightarrow>
                   (case py_mean fill_levels of
                      Inl e \<Rightarrow> Inl e
                    | Inr avg_fill \<Rightarrow> Inr [Log INFO (Max_avg_fill max_fill avg_fill)]))
            else Inr [])
      else Inr [])"

text \<open>\<^verbatim>\<open>TeaMeter.save_session_data\<close>. The statistics are inside the \<^verbatim>\<open>try\<close>, after the
  write: an exception of the write skips them, and an exception of theirs is caught by
  \<^verbatim>\<open>except Exception\<close>.\<close>

definition save_session_data ::
  "io_fault option \<Rightarrow> file_system \<Rightarrow> tea_meter \<Rightarrow> tea_meter \<times> file_system \<times> action list" where
  "save_session_data fault fs m =
     (if measurement_data m = [] then (m, fs, [Log INFO No_data_collected])
      else
        (let acts0 = [Log INFO Session_summary,
                      Log INFO (Total_measurements (length (measurement_data m)))];
             (fs', acts1) =
               (case write_csv fault (measurement_data m) fs of
                  (fs1, Inl e) \<Rightarrow> (fs1, [Log ERROR Could_not_write])
                | (fs1, Inr u) \<Rightarrow>
                    (fs1, Log INFO Session_data_saved #
                          (case summary_statistics (measurement_data m) of
                             Inl e \<Rightarrow> [Log ERROR Unexpected_error_saving]
                           | Inr acts \<Rightarrow> acts)))
         in (m\<lparr>measurement_data := []\<rparr>, fs', acts0 @ acts1)))"

subsection \<open>The measurement cycle\<close>

text \<open>What one call of \<^verbatim>\<open>process_measurement_cycle\<close> receives from outside: the two readings
  of \<^verbatim>\<open>time.monotonic()\<close>, the string of \<^verbatim>\<open>time.strftime("%H:%M:%S")\<close>, the value of the
  button, the outcomes of the DHT and sonar reads (the DHT outcome is ignored when the read is
  throttled away), and the fault of the file system, if any, met when the session is saved.\<close>

record cycle_inputs =
  start_time :: real
  current_time_str :: string
  button :: int
  dht :: dht_outcome
  sonar :: sonar_outcome
  end_time :: real
  fault :: "io_fault option"

definition sleep_time :: "cycle_inputs \<Rightarrow> real" where
  "sleep_time inp =
     (let elapsed = end_time inp - start_time inp
      in max 0 (MIN_READING_INTERVAL_S - elapsed))"

definition ERROR_VALUE :: real where
  "ERROR_VALUE = - 999"

definition process_measurement_cycle ::
  "cycle_inputs \<Rightarrow> file_system \<Rightarrow> tea_meter \<Rightarrow> tea_meter \<times> file_system \<times> action list" where
  "process_measurement_cycle inp fs m =
     (if button inp = 0 then
        (let (m', fs', acts) =
               save_session_data (fault inp) fs (m\<lparr>is_cup_present := False, is_measuring := False\<rparr>)
         in (m', fs', [Read_button, Log INFO Cup_removed] @ acts))
      else
        (let ((humidity, temperature), m1, acts1) =
               (if temp_read_counter m mod TEMP_READ_INTERVAL = 0
                then read_environmental_data (dht inp) m
                else ((last_humidity m, last_temp m), m, []));
             m2 = m1\<lparr>temp_read_counter := temp_read_counter m1 + 1\<rparr>;
             (distance, acts2) = get_distance_reading (sonar inp);
             fill_level = (case distance of
                             Some d \<Rightarrow> calculate_fill_level m2 d
                           | None \<Rightarrow> ERROR_VALUE);
             m3 = m2\<lparr>measurement_data :=
                       measurement_data m2 @ [(current_time_str inp, temperature, humidity, fill_level)]\<rparr>
         in (m3, fs,
             [Read_button] @ acts1 @ acts2 @
             [Log INFO (Cycle_status temperature humidity fill_level)] @
             (if sleep_time inp > 0 then [Sleep (sleep_time inp)] else []))))"

subsection \<open>The main loop\<close>

text \<open>\<^verbatim>\<open>TeaMeter.wait_for_cup\<close>.\<close>

definition wait_for_cup ::
  "int \<Rightarrow> (nat \<Rightarrow> sonar_outcome) \<Rightarrow> tea_meter \<Rightarrow> py_error + (tea_meter \<times> action list)" where
  "wait_for_cup button_value sonar_at m =
     (if button_value = 1 then
        (case calibrate_empty_cup sonar_at (m\<lparr>is_cup_present := True\<rparr>) of
           Inl e \<Rightarrow> Inl e
         | Inr (ok, m1, acts) \<Rightarrow>
             Inr (m1\<lparr>is_measuring := True, temp_read_counter := 0\<rparr>,
                  [Read_button, Log INFO Cup_detected, Sleep CALIBRATION_DELAY_S] @ acts @
                  [Log INFO Starting_session]))
      else Inr (m, [Read_button]))"

text \<open>One pass of the body of \<^verbatim>\<open>while True\<close> in \<^verbatim>\<open>TeaMeter.run\<close>, and a finite number of
  passes. An exception ends the loop.\<close>

record iteration_inputs =
  wait_button :: int
  calibration_sonar :: "nat \<Rightarrow> sonar_outcome"
  cycle :: cycle_inputs

definition run_iteration ::
  "iteration_inputs \<Rightarrow> file_system \<Rightarrow> tea_meter \<Rightarrow> py_error + (tea_meter \<times> file_system \<times> action list)" where
  "run_iteration inp fs m =
     (case (if \<not> is_cup_present m then
              (case wait_for_cup (wait_button inp) (calibration_sonar inp) m of
                 Inl e \<Rightarrow> Inl e
               | Inr (m1, acts) \<Rightarrow> Inr (m1, acts @ [Sleep (1 / 10)]))
            else Inr (m, [])) of
        Inl e \<Rightarrow> Inl e
      | Inr (m1, acts1) \<Rightarrow>
          (if is_measuring m1 then
             (let (m2, fs2, acts2) = process_measurement_cycle (cycle inp) fs m1
              in Inr (m2, fs2, acts1 @ acts2))
           else Inr (m1, fs, acts1)))"

fun run_loop ::
  "iteration_inputs list \<Rightarrow> file_system \<Rightarrow> tea_meter \<Rightarrow> py_error + (tea_meter \<times> file_system \<times> action list)" where
  "run_loop [] fs m = Inr (m, fs, [])"
| "run_loop (inp # inps) fs m =
     (case run_iteration inp fs m of
        Inl e \<Rightarrow> Inl e
      | Inr (m1, fs1, acts1) \<Rightarrow>
          (case run_loop inps fs1 m1 of
             Inl e \<Rightarrow> Inl e
           | Inr (m2, fs2, acts2) \<Rightarrow> Inr (m2, fs2, acts1 @ acts2)))"

section \<open>The parking spot monitor\<close>

subsection \<open>Configuration and state\<close>

definition DISTANCE_THRESHOLD_CM :: real where
  "DISTANCE_THRESHOLD_CM = 10"

definition CHECK_INTERVAL_S :: real where
  "CHECK_INTERVAL_S = 1 / 5"

definition MAX_RETRY_ATTEMPTS :: nat where
  "MAX_RETRY_ATTEMPTS = 3"

definition SENSOR_RETRY_DELAY_S :: real where
  "SENSOR_RETRY_DELAY_S = 1 / 10"

definition API_BASE_URL :: string where
  "API_BASE_URL = ''https://dpo.been-jammin.ch/api/parking''"

definition API_ENDPOINTS :: "string \<rightharpoonup> string" where
  "API_ENDPOINTS =
     map_of [(''arrival'', API_BASE_URL @ ''/arrival''),
             (''departure'', API_BASE_URL @ ''/departure''),
             (''status'', API_BASE_URL @ ''/status'')]"

record parking_spot_monitor =
  last_spot_state_taken :: bool

text \<open>\<^verbatim>\<open>ParkingSpotMonitor.__init__\<close>.\<close>

definition monitor_init :: parking_spot_monitor where
  "monitor_init = \<lparr> last_spot_state_taken = False \<rparr>"

text \<open>\<^verbatim>\<open>requests.post(url, timeout=API_TIMEOUT_S)\<close> returns a response with a status code, or
  raises one of the exceptions the function tells apart.\<close>

datatype http_outcome =
    Response int
  | Raises_Timeout
  | Raises_ConnectionError
  | Raises_RequestException
  | Raises_other

subsection \<open>Sensor, endpoint, indicator\<close>

text \<open>\<^verbatim>\<open>ParkingSpotMonitor.get_sensor_reading\<close>: the loop \<^verbatim>\<open>for attempt in range(MAX_RETRY_ATTEMPTS)\<close>
  over the attempts that remain. A negative distance goes to the next attempt at once; an
  exception is logged and followed by the retry delay, except after the last attempt.\<close>

fun sensor_attempts :: "(nat \<Rightarrow> sonar_outcome) \<Rightarrow> nat list \<Rightarrow> real option \<times> action list" where
  "sensor_attempts sonar_at [] = (None, [Log ERROR All_attempts_failed])"
| "sensor_attempts sonar_at (attempt # rest) =
     (case sonar_at attempt of
        Distance distance \<Rightarrow>
          (if distance \<ge> 0 then (Some distance, [Read_sonar])
           else (let (r, acts) = sensor_attempts sonar_at rest in (r, Read_sonar # acts)))
      | Sonar_raises \<Rightarrow>
          (let (r, acts) = sensor_attempts sonar_at rest
           in (r, [Read_sonar, Log WARNING (Attempt_failed (attempt + 1))] @
                  (if attempt < MAX_RETRY_ATTEMPTS - 1 then [Sleep SENSOR_RETRY_DELAY_S] else []) @
                  acts)))"

definition get_sensor_reading :: "(nat \<Rightarrow> sonar_outcome) \<Rightarrow> real option \<times> action list" where
  "get_sensor_reading sonar_at = sensor_attempts sonar_at [0..<MAX_RETRY_ATTEMPTS]"

text \<open>\<^verbatim>\<open>ParkingSpotMonitor.send_event_to_api\<close>: the returned boolean and the actions.\<close>

definition send_event_to_api :: "string \<Rightarrow> http_outcome \<Rightarrow> bool \<times> action list" where
  "send_event_to_api event_type http =
     (case API_ENDPOINTS event_type of
        None \<Rightarrow> (False, [Log ERROR (Invalid_event_type event_type)])
      | Some url \<Rightarrow>
          (case http of
             Response status_code \<Rightarrow>
               (if status_code = 200 then (True, [Post url, Log INFO (Api_successful event_type)])
                else (False, [Post url, Log WARNING (Api_failed event_type status_code)]))
           | Raises_Timeout \<Rightarrow> (False, [Post url, Log ERROR (Api_timed_out event_type)])
           | Raises_ConnectionError \<Rightarrow>
               (False, [Post url, Log ERROR (Api_connection_error event_type)])
           | Raises_RequestException \<Rightarrow>
               (False, [Post url, Log ERROR (Api_request_error event_type)])
           | Raises_other \<Rightarrow> (False, [Post url, Log ERROR (Api_unexpected_error event_type)])))"

text \<open>\<^verbatim>\<open>ParkingSpotMonitor.update_led_state\<close>; \<open>led_raises\<close> tells whether the call of the LED
  raises, which is logged and goes no further.\<close>

definition update_led_state :: "bool \<Rightarrow> bool \<Rightarrow> action list" where
  "update_led_state spot_taken led_raises =
     (if spot_taken then [Led_off] else [Led_on]) @
     (if led_raises then [Log ERROR Led_update_failed] else [])"

subsection \<open>Start-up, one reading, the main loop\<close>

text \<open>\<^verbatim>\<open>ParkingSpotMonitor.initialize_state\<close>.\<close>

definition initialize_state ::
  "(nat \<Rightarrow> sonar_outcome) \<Rightarrow> bool \<Rightarrow> http_outcome \<Rightarrow> parking_spot_monitor
     \<Rightarrow> parking_spot_monitor \<times> action list" where
  "initialize_state sonar_at led_raises http s =
     (let (initial_distance, acts0) = get_sensor_reading sonar_at
      in case initial_distance of
           Some d \<Rightarrow>
             (let spot_taken = (d \<le> DISTANCE_THRESHOLD_CM);
                  s1 = s\<lparr>last_spot_state_taken := spot_taken\<rparr>;
                  event_type = (if spot_taken then ''arrival'' else ''departure'')
              in (s1, [Log INFO Initializing_state] @ acts0 @
                      update_led_state spot_taken led_raises @
                      [Log INFO (Initial_state spot_taken d)] @
                      snd (send_event_to_api event_type http)))
         | None \<Rightarrow>
             (s\<lparr>last_spot_state_taken := False\<rparr>,
              [Log INFO Initializing_state] @ acts0 @ [Log WARNING Initial_reading_failed] @
              update_led_state False led_raises))"

text \<open>\<^verbatim>\<open>ParkingSpotMonitor.process_sensor_reading\<close>.\<close>

definition process_sensor_reading ::
  "real \<Rightarrow> bool \<Rightarrow> http_outcome \<Rightarrow> parking_spot_monitor \<Rightarrow> parking_spot_monitor \<times> action list" where
  "process_sensor_reading distance led_raises http s =
     (let current_spot_taken = (distance \<le> DISTANCE_THRESHOLD_CM)
      in if current_spot_taken \<noteq> last_spot_state_taken s then
           (s\<lparr>last_spot_state_taken := current_spot_taken\<rparr>,
            (if current_spot_taken then
               [Log INFO (State_changed_taken distance)] @ update_led_state True led_raises @
               snd (send_event_to_api ''arrival'' http)
             else
               [Log INFO (State_changed_empty distance)] @ update_led_state False led_raises @
               snd (send_event_to_api ''departure'' http)))
         else (s, []))"

text \<open>One pass of the body of \<^verbatim>\<open>while True\<close> in \<^verbatim>\<open>ParkingSpotMonitor.run\<close>, and a finite
  number of passes.\<close>

record tick_inputs =
  tick_sonar :: "nat \<Rightarrow> sonar_outcome"
  tick_led_raises :: bool
  tick_http :: http_outcome

definition monitor_tick :: "tick_inputs \<Rightarrow> parking_spot_monitor \<Rightarrow> parking_spot_monitor \<times> action list" where
  "monitor_tick inp s =
     (let (distance, acts0) = get_sensor_reading (tick_sonar inp)
      in case distance of
           Some d \<Rightarrow>
             (let (s1, acts1) = process_sensor_reading d (tick_led_raises inp) (tick_http inp) s
              in (s1, acts0 @ acts1 @ [Sleep CHECK_INTERVAL_S]))
         | None \<Rightarrow> (s, acts0 @ [Log WARNING Skipping_cycle, Sleep CHECK_INTERVAL_S]))"

fun monitor_loop :: "tick_inputs list \<Rightarrow> parking_spot_monitor \<Rightarrow> parking_spot_monitor \<times> action list" where
  "monitor_loop [] s = (s, [])"
| "monitor_loop (inp # inps) s =
     (let (s1, acts1) = monitor_tick inp s;
          (s2, acts2) = monitor_loop inps s1
      in (s2, acts1 @ acts2))"

text \<open>The requests sent and the commands given to the LED, in order.\<close>

fun posts :: "action list \<Rightarrow> string list" where
  "posts [] = []"
| "posts (Post url # acts) = url # posts acts"
| "posts (a # acts) = posts acts"

fun led_commands :: "action list \<Rightarrow> action list" where
  "led_commands [] = []"
| "led_commands (Led_off # acts) = Led_off # led_commands acts"
| "led_commands (Led_on # acts) = Led_on # led_commands acts"
| "led_commands (a # acts) = led_commands acts"

definition arrival_url :: string where
  "arrival_url = API_BASE_URL @ ''/arrival''"

definition departure_url :: string where
  "departure_url = API_BASE_URL @ ''/departure''"

section \<open>Notions used in the statements\<close>

text \<open>The samples that \<^verbatim>\<open>get_distance_reading\<close> lets through: the readings that did not
  raise and are strictly positive.\<close>

fun positive_samples :: "sonar_outcome list \<Rightarrow> real list" where
  "positive_samples [] = []"
| "positive_samples (Distance d # rs) =
     (if d > 0 then d # positive_samples rs else positive_samples rs)"
| "positive_samples (Sonar_raises # rs) = positive_samples rs"

text \<open>The specification's valid samples, in its words: non-error and non-negative; and its
  calibration result: their arithmetic mean when there is one, the default otherwise.\<close>

fun spec_valid_samples :: "sonar_outcome list \<Rightarrow> real list" where
  "spec_valid_samples [] = []"
| "spec_valid_samples (Distance d # rs) =
     (if d \<ge> 0 then d # spec_valid_samples rs else spec_valid_samples rs)"
| "spec_valid_samples (Sonar_raises # rs) = spec_valid_samples rs"

definition spec_calibration_reference :: "sonar_outcome list \<Rightarrow> real" where
  "spec_calibration_reference rs =
     (if spec_valid_samples rs \<noteq> []
      then sum_list (spec_valid_samples rs) / real (length (spec_valid_samples rs))
      else DEFAULT_DISTANCE_TO_EMPTY_CUP_BOTTOM_CM)"

text \<open>The reference a call of \<^verbatim>\<open>calibrate_empty_cup\<close> leaves in the state, if the call
  returns.\<close>

definition reference_after :: "py_error + (bool \<times> tea_meter \<times> action list) \<Rightarrow> real option" where
  "reference_after r =
     (case r of Inl e \<Rightarrow> None | Inr (ok, m, acts) \<Rightarrow> Some (calibrated_empty_cup_distance m))"

text \<open>The first reading among the outcomes of successive attempts that did not raise and is
  not negative.\<close>

fun first_reading :: "sonar_outcome list \<Rightarrow> real option" where
  "first_reading [] = None"
| "first_reading (Distance d # rs) = (if d \<ge> 0 then Some d else first_reading rs)"
| "first_reading (Sonar_raises # rs) = first_reading rs"

text \<open>The number of calls of the sonar among the actions.\<close>

fun sonar_reads :: "action list \<Rightarrow> nat" where
  "sonar_reads [] = 0"
| "sonar_reads (Read_sonar # acts) = Suc (sonar_reads acts)"
| "sonar_reads (a # acts) = sonar_reads acts"

text \<open>The reading a pass of the monitor's loop works with: \<open>None\<close> when all attempts failed.\<close>

definition tick_reading :: "tick_inputs \<Rightarrow> real option" where
  "tick_reading inp = fst (get_sensor_reading (tick_sonar inp))"

text \<open>The events the specification asks for, given the previous classification and the
  readings of the successive passes: one event for each change of the classification
  \<open>distance \<le> DISTANCE_THRESHOLD_CM\<close>, arrival when it becomes true, departure when it becomes
  false, none when it stays the same; a pass without a reading is skipped.\<close>

fun spec_events :: "bool \<Rightarrow> real option list \<Rightarrow> string list" where
  "spec_events prev [] = []"
| "spec_events prev (None # rs) = spec_events prev rs"
| "spec_events prev (Some d # rs) =
     (if (d \<le> DISTANCE_THRESHOLD_CM) = prev then spec_events prev rs
      else (if d \<le> DISTANCE_THRESHOLD_CM then arrival_url else departure_url)
           # spec_events (d \<le> DISTANCE_THRESHOLD_CM) rs)"

text \<open>A pass in which the first attempt reads the distance \<open>d\<close> and the LED does not raise.\<close>

definition one_reading :: "real \<Rightarrow> http_outcome \<Rightarrow> tick_inputs" where
  "one_reading d http =
     \<lparr> tick_sonar = replay [Distance d], tick_led_raises = False, tick_http = http \<rparr>"

text \<open>A DHT read that gives no usable pair: it raises, or one of the two values is \<^verbatim>\<open>None\<close>.\<close>

fun dht_failed :: "dht_outcome \<Rightarrow> bool" where
  "dht_failed Dht_raises = True"
| "dht_failed (Dht_values hum temp) = (hum = None \<or> temp = None)"

text \<open>The durations slept, in order.\<close>

fun sleeps :: "action list \<Rightarrow> real list" where
  "sleeps [] = []"
| "sleeps (Sleep t # acts) = t # sleeps acts"
| "sleeps (a # acts) = sleeps acts"

text \<open>The fill levels that enter the statistics: those of the records whose fill level is
  strictly positive.\<close>

definition positive_fills :: "measurement list \<Rightarrow> real list" where
  "positive_fills data = filter (\<lambda>x. x > 0) (map fill_level_of data)"

text \<open>The buffer of the specification's example.\<close>

definition example_buffer :: "measurement list" where
  "example_buffer = [(''09:00:00'', 22, 55, 16 / 5), (''09:00:01'', 22, 55, - 999)]"

text \<open>No value of the DHT sensor has reached the state yet: the cache holds what \<^verbatim>\<open>__init__\<close>
  put there, and so does every record of the buffer.\<close>

definition no_dht_value_yet :: "tea_meter \<Rightarrow> bool" where
  "no_dht_value_yet m =
     (last_temp m = - 1 \<and> last_humidity m = - 1 \<and>
      (\<forall>row \<in> set (measurement_data m). fst (snd row) = - 1 \<and> fst (snd (snd row)) = - 1))"

text \<open>A first pass of the main loop: the cup is put down, the calibration reads 15 five times,
  and the first cycle measures the distance 12 while the DHT sensor raises.\<close>

definition first_pass :: iteration_inputs where
  "first_pass =
     \<lparr>wait_button = 1,
      calibration_sonar = replay [Distance 15, Distance 15, Distance 15, Distance 15, Distance 15],
      cycle = \<lparr>start_time = 0, current_time_str = ''09:00:00'', button = 1, dht = Dht_raises,
               sonar = Distance 12, end_time = 1, fault = None\<rparr>\<rparr>"

text \<open>A second cycle: the cup is still there, the DHT read is throttled away, the distance is 10.\<close>

definition second_cycle :: cycle_inputs where
  "second_cycle =
     \<lparr>start_time = 1, current_time_str = ''09:00:01'', button = 1, dht = Dht_values None None,
      sonar = Distance 10, end_time = 2, fault = None\<rparr>"

text \<open>A file system in which neither the output directory nor the output file exists.\<close>

definition no_files :: file_system where
  "no_files = \<lparr>dir_exists = False, file_content = None\<rparr>"

text \<open>Reading a decimal numeral back, independently of the printing functions: the value of a
  digit character, and the number a non-empty string of digits denotes.\<close>

definition digit_val :: "char \<Rightarrow> nat option" where
  "digit_val c =
     map_of [(CHR ''0'', 0), (CHR ''1'', 1), (CHR ''2'', 2), (CHR ''3'', 3), (CHR ''4'', 4),
             (CHR ''5'', 5), (CHR ''6'', 6), (CHR ''7'', 7), (CHR ''8'', 8), (CHR ''9'', 9)] c"

fun decode_digits :: "nat \<Rightarrow> string \<Rightarrow> nat option" where
  "decode_digits acc [] = Some acc"
| "decode_digits acc (c # cs) =
     (case digit_val c of None \<Rightarrow> None | Some d \<Rightarrow> decode_digits (10 * acc + d) cs)"

definition decode_nat :: "string \<Rightarrow> nat option" where
  "decode_nat s = (if s = [] then None else decode_digits 0 s)"

text \<open>The specification's fill level, in its words: a distance read succeeds when it is
  non-error and non-negative, and then the fill level is the reference minus the distance;
  otherwise it is the error value.\<close>

definition spec_fill_level :: "real \<Rightarrow> sonar_outcome \<Rightarrow> real" where
  "spec_fill_level reference r =
     (case r of
        Distance d \<Rightarrow> if d \<ge> 0 then reference - d else ERROR_VALUE
      | Sonar_raises \<Rightarrow> ERROR_VALUE)"

text \<open>A cycle with the cup present in which the sonar returns the distance 0 without raising.\<close>

definition zero_cycle :: cycle_inputs where
  "zero_cycle =
     \<lparr>start_time = 0, current_time_str = ''09:00:00'', button = 1, dht = Dht_raises,
      sonar = Distance 0, end_time = 1, fault = None\<rparr>"

section \<open>Properties\<close>

subsection \<open>Calibration\<close>

lemma calibration_loop_distances:
  "fst (foldl (calibration_read sonar_at) (ds, acts) js) = ds @ positive_samples (map sonar_at js)"
proof (induction js arbitrary: ds acts)
  case Nil
  show ?case by simp
next
  case (Cons j js)
  obtain ds' acts' where step: "calibration_read sonar_at (ds, acts) j = (ds', acts')"
    by (cases "calibration_read sonar_at (ds, acts) j")
  have "ds' = ds @ positive_samples [sonar_at j]"
    using step
    by (cases "sonar_at j")
       (auto simp: calibration_read_def get_distance_reading_def split: if_splits)
  then show ?case
    using Cons.IH [of ds' acts'] step
    by (cases "sonar_at j") simp_all
qed

lemma map_replay: "map (replay rs) [0..<length rs] = rs"
  by (rule nth_equalityI) (simp_all add: replay_def)

text \<open>
  \<^bold>\<open>C1\<close> (as amended). For every sequence of \<open>CALIBRATION_READS\<close> outcomes of the distance
  read, \<^verbatim>\<open>calibrate_empty_cup\<close> returns without raising; the samples it keeps are the
  readings that did not raise and are strictly positive; when there is at least one, it
  returns \<open>True\<close> and the reference is their arithmetic mean; when there is none, it returns
  \<open>False\<close> and the reference is \<open>DEFAULT_DISTANCE_TO_EMPTY_CUP_BOTTOM_CM\<close>. Nothing else of
  the state changes.
\<close>

theorem calibrate_empty_cup_mean_of_positive:
  assumes "length rs = CALIBRATION_READS"
  shows "\<exists>acts. calibrate_empty_cup (replay rs) m =
           Inr (positive_samples rs \<noteq> [],
                m\<lparr>calibrated_empty_cup_distance :=
                    (if positive_samples rs \<noteq> []
                     then sum_list (positive_samples rs) / real (length (positive_samples rs))
                     else DEFAULT_DISTANCE_TO_EMPTY_CUP_BOTTOM_CM)\<rparr>,
                acts)"
proof -
  obtain ds acts where loop:
    "foldl (calibration_read (replay rs)) ([], [Log INFO Calibrating]) [0..<CALIBRATION_READS]
       = (ds, acts)"
    by (cases "foldl (calibration_read (replay rs)) ([], [Log INFO Calibrating])
                 [0..<CALIBRATION_READS]")
  have "ds = positive_samples (map (replay rs) [0..<CALIBRATION_READS])"
    using calibration_loop_distances
            [of "replay rs" "[]" "[Log INFO Calibrating]" "[0..<CALIBRATION_READS]"] loop
    by simp
  then have ds: "ds = positive_samples rs"
    using assms map_replay [of rs] by simp
  show ?thesis
    unfolding calibrate_empty_cup_def loop
    by (simp add: ds py_mean_def)
qed

text \<open>The example of the specification: the readings 12.0, -1, 14.0, error, 13.0 give the
  reference 13.0.\<close>

theorem calibrate_empty_cup_mean_of_positive_witness:
  "length [Distance 12, Distance (- 1), Distance 14, Sonar_raises, Distance 13] = CALIBRATION_READS
   \<and> (\<exists>acts. calibrate_empty_cup
                (replay [Distance 12, Distance (- 1), Distance 14, Sonar_raises, Distance 13])
                tea_meter_init
              = Inr (True, tea_meter_init\<lparr>calibrated_empty_cup_distance := 13\<rparr>, acts))"
  using calibrate_empty_cup_mean_of_positive
          [of "[Distance 12, Distance (- 1), Distance 14, Sonar_raises, Distance 13]" tea_meter_init]
  by (simp add: CALIBRATION_READS_def)

text \<open>A reading of exactly 0 is non-negative, yet the code drops it: with the readings
  0, 10, 10, 10, 10 the reference is 10, where the mean of the non-negative readings is 8.\<close>

theorem calibrate_empty_cup_zero_reading_counterexample:
  "reference_after
     (calibrate_empty_cup
        (replay [Distance 0, Distance 10, Distance 10, Distance 10, Distance 10]) tea_meter_init)
     = Some 10
   \<and> spec_calibration_reference
       [Distance 0, Distance 10, Distance 10, Distance 10, Distance 10] = 8"
  by (simp add: reference_after_def calibrate_empty_cup_def CALIBRATION_READS_def
        eval_nat_numeral calibration_read_def get_distance_reading_def replay_def py_mean_def
        spec_calibration_reference_def)


subsection \<open>The parking spot monitor\<close>

lemma posts_append: "posts (xs @ ys) = posts xs @ posts ys"
  by (induction xs rule: posts.induct) simp_all

lemma led_commands_append: "led_commands (xs @ ys) = led_commands xs @ led_commands ys"
  by (induction xs rule: led_commands.induct) simp_all

lemma posts_update_led_state: "posts (update_led_state t r) = []"
  by (simp add: update_led_state_def)

lemma led_commands_update_led_state:
  "led_commands (update_led_state t r) = [if t then Led_off else Led_on]"
  by (simp add: update_led_state_def)

lemma send_event_arrival:
  "posts (snd (send_event_to_api ''arrival'' http)) = [arrival_url]"
  "led_commands (snd (send_event_to_api ''arrival'' http)) = []"
  by (cases http; simp add: send_event_to_api_def API_ENDPOINTS_def arrival_url_def)+

lemma send_event_departure:
  "posts (snd (send_event_to_api ''departure'' http)) = [departure_url]"
  "led_commands (snd (send_event_to_api ''departure'' http)) = []"
  by (cases http; simp add: send_event_to_api_def API_ENDPOINTS_def departure_url_def)+

lemma sensor_attempts_quiet:
  "posts (snd (sensor_attempts sonar_at js)) = [] \<and> led_commands (snd (sensor_attempts sonar_at js)) = []"
  by (induction js) (auto simp: posts_append led_commands_append split: sonar_outcome.splits prod.splits)

lemma sensor_attempts_first:
  "fst (sensor_attempts sonar_at js) = first_reading (map sonar_at js)"
  by (induction js) (auto split: sonar_outcome.splits prod.splits)

lemma sonar_reads_append: "sonar_reads (xs @ ys) = sonar_reads xs + sonar_reads ys"
  by (induction xs rule: sonar_reads.induct) simp_all

lemma sonar_reads_update_led_state: "sonar_reads (update_led_state t r) = 0"
  by (simp add: update_led_state_def)

lemma sonar_reads_send_event: "sonar_reads (snd (send_event_to_api e http)) = 0"
  by (cases http; simp add: send_event_to_api_def split: option.splits)

lemma sensor_attempts_reads:
  "sonar_reads (snd (sensor_attempts sonar_at js)) \<le> length js"
  by (induction js) (auto simp: sonar_reads_append split: sonar_outcome.splits prod.splits)

lemma process_sensor_reading_step:
  "last_spot_state_taken (fst (process_sensor_reading d led http s)) = (d \<le> DISTANCE_THRESHOLD_CM)"
  "posts (snd (process_sensor_reading d led http s)) =
     (if (d \<le> DISTANCE_THRESHOLD_CM) = last_spot_state_taken s then []
      else [if d \<le> DISTANCE_THRESHOLD_CM then arrival_url else departure_url])"
  "led_commands (snd (process_sensor_reading d led http s)) =
     (if (d \<le> DISTANCE_THRESHOLD_CM) = last_spot_state_taken s then []
      else [if d \<le> DISTANCE_THRESHOLD_CM then Led_off else Led_on])"
  by (auto simp: process_sensor_reading_def Let_def posts_append led_commands_append
        posts_update_led_state led_commands_update_led_state send_event_arrival send_event_departure)

lemma monitor_tick_posts:
  "posts (snd (monitor_tick inp s)) = spec_events (last_spot_state_taken s) [tick_reading inp]"
  "last_spot_state_taken (fst (monitor_tick inp s)) =
     (case tick_reading inp of None \<Rightarrow> last_spot_state_taken s | Some d \<Rightarrow> d \<le> DISTANCE_THRESHOLD_CM)"
proof -
  obtain r acts0 where g: "get_sensor_reading (tick_sonar inp) = (r, acts0)"
    by (cases "get_sensor_reading (tick_sonar inp)")
  have q: "posts acts0 = []"
    using sensor_attempts_quiet [of "tick_sonar inp" "[0..<MAX_RETRY_ATTEMPTS]"] g
    by (simp add: get_sensor_reading_def)
  show "posts (snd (monitor_tick inp s)) = spec_events (last_spot_state_taken s) [tick_reading inp]"
  proof (cases r)
    case None
    then show ?thesis using g q by (simp add: monitor_tick_def tick_reading_def posts_append)
  next
    case (Some d)
    then show ?thesis
      using g q process_sensor_reading_step(2) [of d "tick_led_raises inp" "tick_http inp" s]
      by (auto simp: monitor_tick_def tick_reading_def posts_append split: prod.splits)
  qed
  show "last_spot_state_taken (fst (monitor_tick inp s)) =
     (case tick_reading inp of None \<Rightarrow> last_spot_state_taken s | Some d \<Rightarrow> d \<le> DISTANCE_THRESHOLD_CM)"
  proof (cases r)
    case None
    then show ?thesis using g by (simp add: monitor_tick_def tick_reading_def)
  next
    case (Some d)
    then show ?thesis
      using g process_sensor_reading_step(1) [of d "tick_led_raises inp" "tick_http inp" s]
      by (auto simp: monitor_tick_def tick_reading_def split: prod.splits)
  qed
qed

lemma spec_events_Cons:
  "spec_events prev (r # rs) =
     spec_events prev [r] @ spec_events (case r of None \<Rightarrow> prev | Some d \<Rightarrow> d \<le> DISTANCE_THRESHOLD_CM) rs"
  by (cases r) simp_all

lemma monitor_loop_posts:
  "posts (snd (monitor_loop inps s)) = spec_events (last_spot_state_taken s) (map tick_reading inps)"
proof (induction inps arbitrary: s)
  case Nil
  show ?case by simp
next
  case (Cons inp inps)
  obtain s1 acts1 where t: "monitor_tick inp s = (s1, acts1)" by (cases "monitor_tick inp s")
  obtain s2 acts2 where l: "monitor_loop inps s1 = (s2, acts2)" by (cases "monitor_loop inps s1")
  have "posts acts1 = spec_events (last_spot_state_taken s) [tick_reading inp]"
    using monitor_tick_posts(1) [of inp s] t by simp
  moreover have "last_spot_state_taken s1 =
     (case tick_reading inp of None \<Rightarrow> last_spot_state_taken s | Some d \<Rightarrow> d \<le> DISTANCE_THRESHOLD_CM)"
    using monitor_tick_posts(2) [of inp s] t by simp
  moreover have "posts acts2 = spec_events (last_spot_state_taken s1) (map tick_reading inps)"
    using Cons.IH [of s1] l by simp
  ultimately show ?case
    using t l spec_events_Cons [of "last_spot_state_taken s" "tick_reading inp" "map tick_reading inps"]
    by (simp add: posts_append)
qed

text \<open>
  \<^bold>\<open>C2\<close>. A reading processed by \<^verbatim>\<open>process_sensor_reading\<close> is classified as taken when
  \<open>distance \<le> DISTANCE_THRESHOLD_CM\<close>. Whatever the outcome of the HTTP request and of the
  LED call, the stored previous state is the new classification afterwards; when the
  classification differs from the previous one, exactly one request is sent (to the arrival
  endpoint when the spot became taken, to the departure endpoint when it became empty) and
  the LED gets exactly one command (off when taken, on when empty); when the classification
  is the same, no request is sent and the LED gets no command. Over any number of passes
  of the main loop, the requests sent are, in order, one for each change of classification
  between successive readings.
\<close>

theorem occupancy_edges:
  "last_spot_state_taken (fst (process_sensor_reading d led http s)) = (d \<le> DISTANCE_THRESHOLD_CM)
   \<and> posts (snd (process_sensor_reading d led http s)) =
       (if (d \<le> DISTANCE_THRESHOLD_CM) = last_spot_state_taken s then []
        else [if d \<le> DISTANCE_THRESHOLD_CM then arrival_url else departure_url])
   \<and> led_commands (snd (process_sensor_reading d led http s)) =
       (if (d \<le> DISTANCE_THRESHOLD_CM) = last_spot_state_taken s then []
        else [if d \<le> DISTANCE_THRESHOLD_CM then Led_off else Led_on])
   \<and> posts (snd (monitor_loop inps s)) =
       spec_events (last_spot_state_taken s) (map tick_reading inps)"
  using process_sensor_reading_step [of d led http s] monitor_loop_posts [of inps s]
  by simp

lemma tick_reading_one: "0 \<le> d \<Longrightarrow> tick_reading (one_reading d http) = Some d"
  by (simp add: tick_reading_def one_reading_def get_sensor_reading_def MAX_RETRY_ATTEMPTS_def
        upt_rec [of 0] replay_def)

text \<open>The example of the specification: the distances 15, 15, 8, 8, 8, 15 after start-up
  send the arrival and then the departure request, also when a request times out or is
  answered with status 500.\<close>

theorem occupancy_edges_witness:
  "posts (snd (monitor_loop
      [one_reading 15 (Response 200), one_reading 15 (Response 200), one_reading 8 Raises_Timeout,
       one_reading 8 (Response 200), one_reading 8 (Response 200), one_reading 15 (Response 500)]
      monitor_init)) = [arrival_url, departure_url]
   \<and> last_spot_state_taken (fst (process_sensor_reading 8 False Raises_Timeout monitor_init)) = True
   \<and> posts (snd (process_sensor_reading 8 False Raises_Timeout monitor_init)) = [arrival_url]
   \<and> led_commands (snd (process_sensor_reading 8 False Raises_Timeout monitor_init)) = [Led_off]"
  using occupancy_edges [of 8 False Raises_Timeout monitor_init
      "[one_reading 15 (Response 200), one_reading 15 (Response 200), one_reading 8 Raises_Timeout,
       one_reading 8 (Response 200), one_reading 8 (Response 200), one_reading 15 (Response 500)]"]
  by (simp add: tick_reading_one monitor_init_def DISTANCE_THRESHOLD_CM_def)


text \<open>
  \<^bold>\<open>C7\<close>. \<^verbatim>\<open>initialize_state\<close> calls the sonar at most \<open>MAX_RETRY_ATTEMPTS\<close> = 3 times. When
  one of these attempts returns a distance that is not negative, the first such distance
  \<open>d\<close> seeds the previous state with \<open>d \<le> DISTANCE_THRESHOLD_CM\<close>, the LED gets the matching
  command (off when taken, on when empty) and one request is sent, to the arrival endpoint
  when taken and to the departure endpoint when empty. When all attempts fail, the previous
  state is set to empty, the LED is switched on and no request is sent.
\<close>

theorem initialize_state_seeds:
  "sonar_reads (snd (initialize_state sonar_at led http s)) \<le> MAX_RETRY_ATTEMPTS
   \<and> (case first_reading (map sonar_at [0..<MAX_RETRY_ATTEMPTS]) of
         Some d \<Rightarrow>
           last_spot_state_taken (fst (initialize_state sonar_at led http s))
             = (d \<le> DISTANCE_THRESHOLD_CM)
           \<and> led_commands (snd (initialize_state sonar_at led http s))
             = [if d \<le> DISTANCE_THRESHOLD_CM then Led_off else Led_on]
           \<and> posts (snd (initialize_state sonar_at led http s))
             = [if d \<le> DISTANCE_THRESHOLD_CM then arrival_url else departure_url]
       | None \<Rightarrow>
           last_spot_state_taken (fst (initialize_state sonar_at led http s)) = False
           \<and> led_commands (snd (initialize_state sonar_at led http s)) = [Led_on]
           \<and> posts (snd (initialize_state sonar_at led http s)) = [])"
proof -
  obtain r acts0 where g: "get_sensor_reading sonar_at = (r, acts0)"
    by (cases "get_sensor_reading sonar_at")
  have r: "r = first_reading (map sonar_at [0..<MAX_RETRY_ATTEMPTS])"
    using sensor_attempts_first [of sonar_at "[0..<MAX_RETRY_ATTEMPTS]"] g
    by (simp add: get_sensor_reading_def)
  have q: "posts acts0 = []" "led_commands acts0 = []"
    using sensor_attempts_quiet [of sonar_at "[0..<MAX_RETRY_ATTEMPTS]"] g
    by (simp_all add: get_sensor_reading_def)
  have n: "sonar_reads acts0 \<le> MAX_RETRY_ATTEMPTS"
    using sensor_attempts_reads [of sonar_at "[0..<MAX_RETRY_ATTEMPTS]"] g
    by (simp add: get_sensor_reading_def)
  show ?thesis
  proof (cases r)
    case None
    then show ?thesis
      using g r q n
      by (simp add: initialize_state_def posts_append led_commands_append sonar_reads_append
            posts_update_led_state led_commands_update_led_state sonar_reads_update_led_state)
  next
    case (Some d)
    then have r': "first_reading (map sonar_at [0..<MAX_RETRY_ATTEMPTS]) = Some d"
      using r by simp
    have reads: "sonar_reads (snd (initialize_state sonar_at led http s)) \<le> MAX_RETRY_ATTEMPTS"
      using g Some n
      by (simp add: initialize_state_def Let_def sonar_reads_append sonar_reads_update_led_state
            sonar_reads_send_event)
    have st: "last_spot_state_taken (fst (initialize_state sonar_at led http s))
             = (d \<le> DISTANCE_THRESHOLD_CM)"
      using g Some by (simp add: initialize_state_def Let_def)
    have leds: "led_commands (snd (initialize_state sonar_at led http s))
             = [if d \<le> DISTANCE_THRESHOLD_CM then Led_off else Led_on]"
      using g Some q
      by (simp add: initialize_state_def Let_def led_commands_append led_commands_update_led_state
            send_event_arrival send_event_departure)
    have ps: "posts (snd (initialize_state sonar_at led http s))
             = [if d \<le> DISTANCE_THRESHOLD_CM then arrival_url else departure_url]"
      using g Some q
      by (simp add: initialize_state_def Let_def posts_append posts_update_led_state
            send_event_arrival send_event_departure)
    show ?thesis
      using reads st leds ps by (simp add: r')
  qed
qed

theorem initialize_state_seeds_witness:
  "last_spot_state_taken
     (fst (initialize_state (replay [Sonar_raises, Distance (- 1), Distance 7]) False (Response 200)
             monitor_init)) = True
   \<and> led_commands
       (snd (initialize_state (replay [Sonar_raises, Distance (- 1), Distance 7]) False (Response 200)
               monitor_init)) = [Led_off]
   \<and> posts
       (snd (initialize_state (replay [Sonar_raises, Distance (- 1), Distance 7]) False (Response 200)
               monitor_init)) = [arrival_url]
   \<and> last_spot_state_taken
       (fst (initialize_state (replay [Sonar_raises, Distance (- 1), Sonar_raises]) False (Response 200)
               \<lparr>last_spot_state_taken = True\<rparr>)) = False
   \<and> posts
       (snd (initialize_state (replay [Sonar_raises, Distance (- 1), Sonar_raises]) False (Response 200)
               \<lparr>last_spot_state_taken = True\<rparr>)) = []"
  using initialize_state_seeds
          [of "replay [Sonar_raises, Distance (- 1), Distance 7]" False "Response 200" monitor_init]
        initialize_state_seeds
          [of "replay [Sonar_raises, Distance (- 1), Sonar_raises]" False "Response 200"
              "\<lparr>last_spot_state_taken = True\<rparr>"]
  by (simp add: MAX_RETRY_ATTEMPTS_def eval_nat_numeral replay_def DISTANCE_THRESHOLD_CM_def)



subsection \<open>The measurement cycle\<close>

lemma read_environmental_data_failed:
  "dht_failed d \<Longrightarrow>
     read_environmental_data d m =
       ((last_humidity m, last_temp m), m,
        [Read_dht, if d = Dht_raises then Log ERROR Dht_sensor_error
                   else Log WARNING Dht_returned_None])"
  by (cases d) (auto simp: read_environmental_data_def split: option.splits)

text \<open>
  \<^bold>\<open>C4\<close>. In a cycle with the cup present: when \<open>temp_read_counter mod TEMP_READ_INTERVAL \<noteq> 0\<close>,
  the DHT sensor is not read and the record appended carries the cached temperature and
  humidity; when the counter is a multiple of \<open>TEMP_READ_INTERVAL\<close> and the read fails (it
  raises or a value is \<^verbatim>\<open>None\<close>), the record appended carries the cached values as well. In
  both cases the cache is the same after the cycle.
\<close>

theorem throttled_or_failed_read_uses_cache:
  assumes "button inp \<noteq> 0"
    and "temp_read_counter m mod TEMP_READ_INTERVAL \<noteq> 0
         \<or> (temp_read_counter m mod TEMP_READ_INTERVAL = 0 \<and> dht_failed (dht inp))"
  shows "\<exists>fill_level acts.
           process_measurement_cycle inp fs m =
             (m\<lparr>temp_read_counter := temp_read_counter m + 1,
                measurement_data :=
                  measurement_data m @
                  [(current_time_str inp, last_temp m, last_humidity m, fill_level)]\<rparr>,
              fs, acts)
           \<and> (temp_read_counter m mod TEMP_READ_INTERVAL \<noteq> 0 \<longrightarrow> Read_dht \<notin> set acts)"
proof (cases "temp_read_counter m mod TEMP_READ_INTERVAL = 0")
  case True
  then have "dht_failed (dht inp)" using assms(2) by simp
  then show ?thesis
    using assms(1) True
    by (auto simp: process_measurement_cycle_def read_environmental_data_failed Let_def
          split: prod.splits)
next
  case False
  then show ?thesis
    using assms(1)
    by (cases "sonar inp")
       (auto simp: process_measurement_cycle_def get_distance_reading_def Let_def)
qed

theorem throttled_or_failed_read_uses_cache_witness:
  "(\<exists>fill_level acts.
      process_measurement_cycle
        \<lparr>start_time = 0, current_time_str = ''09:00:01'', button = 1,
         dht = Dht_values (Some 60) (Some 25), sonar = Distance 12, end_time = 0,
         fault = None\<rparr>
        no_files (tea_meter_init\<lparr>temp_read_counter := 1, last_temp := 22, last_humidity := 55\<rparr>)
      = (tea_meter_init\<lparr>temp_read_counter := 2, last_temp := 22, last_humidity := 55,
           measurement_data := [(''09:00:01'', 22, 55, fill_level)]\<rparr>, no_files, acts)
      \<and> Read_dht \<notin> set acts)
   \<and> (\<exists>fill_level acts.
      process_measurement_cycle
        \<lparr>start_time = 0, current_time_str = ''09:00:02'', button = 1,
         dht = Dht_values None (Some 25), sonar = Distance 12, end_time = 0,
         fault = None\<rparr>
        no_files (tea_meter_init\<lparr>temp_read_counter := 2, last_temp := 22, last_humidity := 55\<rparr>)
      = (tea_meter_init\<lparr>temp_read_counter := 3, last_temp := 22, last_humidity := 55,
           measurement_data := [(''09:00:02'', 22, 55, fill_level)]\<rparr>, no_files, acts))"
  using throttled_or_failed_read_uses_cache
          [of "\<lparr>start_time = 0, current_time_str = ''09:00:01'', button = 1,
                dht = Dht_values (Some 60) (Some 25), sonar = Distance 12, end_time = 0,
                fault = None\<rparr>"
              "tea_meter_init\<lparr>temp_read_counter := 1, last_temp := 22, last_humidity := 55\<rparr>" no_files]
        throttled_or_failed_read_uses_cache
          [of "\<lparr>start_time = 0, current_time_str = ''09:00:02'', button = 1,
                dht = Dht_values None (Some 25), sonar = Distance 12, end_time = 0,
                fault = None\<rparr>"
              "tea_meter_init\<lparr>temp_read_counter := 2, last_temp := 22, last_humidity := 55\<rparr>" no_files]
  by (simp add: TEMP_READ_INTERVAL_def tea_meter_init_def)

text \<open>
  \<^bold>\<open>C9\<close>. The sleep duration computed in a cycle is \<open>max 0 (MIN_READING_INTERVAL_S - elapsed)\<close>
  and is never negative. In a cycle with the cup present, the cycle sleeps exactly that long
  when the elapsed time is below \<open>MIN_READING_INTERVAL_S\<close> and does not sleep at all
  otherwise; the session stays in the measuring state, so the next pass of the main loop is
  again a measurement cycle.
\<close>

theorem minimum_interval_sleep:
  "sleep_time inp = max 0 (MIN_READING_INTERVAL_S - (end_time inp - start_time inp))
   \<and> 0 \<le> sleep_time inp
   \<and> (button inp \<noteq> 0 \<longrightarrow>
        sleeps (snd (snd (process_measurement_cycle inp fs m))) =
          (if end_time inp - start_time inp < MIN_READING_INTERVAL_S
           then [MIN_READING_INTERVAL_S - (end_time inp - start_time inp)] else [])
        \<and> is_measuring (fst (process_measurement_cycle inp fs m)) = is_measuring m
        \<and> is_cup_present (fst (process_measurement_cycle inp fs m)) = is_cup_present m)"
proof -
  have sleeps_app: "sleeps (xs @ ys) = sleeps xs @ sleeps ys" for xs ys
    by (induction xs rule: sleeps.induct) simp_all
  have env: "sleeps (snd (snd (read_environmental_data d m))) = []" for d
    by (cases d) (auto simp: read_environmental_data_def split: option.splits)
  have dist: "sleeps (snd (get_distance_reading r)) = []" for r
    by (cases r) (simp_all add: get_distance_reading_def)
  have st: "sleep_time inp = max 0 (MIN_READING_INTERVAL_S - (end_time inp - start_time inp))"
    by (simp add: sleep_time_def Let_def)
  have "sleeps (snd (snd (process_measurement_cycle inp fs m))) =
          (if end_time inp - start_time inp < MIN_READING_INTERVAL_S
           then [MIN_READING_INTERVAL_S - (end_time inp - start_time inp)] else [])"
    if "button inp \<noteq> 0"
    using that env [of "dht inp"] dist [of "sonar inp"]
    by (auto simp: process_measurement_cycle_def Let_def sleeps_app st split: prod.splits)
  moreover have "is_measuring (fst (process_measurement_cycle inp fs m)) = is_measuring m
        \<and> is_cup_present (fst (process_measurement_cycle inp fs m)) = is_cup_present m"
    if "button inp \<noteq> 0"
    using that
    by (cases "dht inp")
       (auto simp: process_measurement_cycle_def Let_def read_environmental_data_def
          split: prod.splits option.splits)
  ultimately show ?thesis
    using st by simp
qed

theorem minimum_interval_sleep_witness:
  "sleeps (snd (snd (process_measurement_cycle
      \<lparr>start_time = 100, current_time_str = ''09:00:00'', button = 1,
       dht = Dht_raises, sonar = Distance 12, end_time = 100 + 1 / 4, fault = None\<rparr>
      no_files tea_meter_init))) = []
   \<and> sleeps (snd (snd (process_measurement_cycle
      \<lparr>start_time = 100, current_time_str = ''09:00:00'', button = 1,
       dht = Dht_raises, sonar = Distance 12, end_time = 100 + 1 / 40, fault = None\<rparr>
      no_files tea_meter_init))) = [3 / 40]"
  using minimum_interval_sleep
          [of "\<lparr>start_time = 100, current_time_str = ''09:00:00'', button = 1,
                dht = Dht_raises, sonar = Distance 12, end_time = 100 + 1 / 4, fault = None\<rparr>"
              no_files tea_meter_init]
        minimum_interval_sleep
          [of "\<lparr>start_time = 100, current_time_str = ''09:00:00'', button = 1,
                dht = Dht_raises, sonar = Distance 12, end_time = 100 + 1 / 40, fault = None\<rparr>"
              no_files tea_meter_init]
  by (simp add: MIN_READING_INTERVAL_S_def)


subsection \<open>Persistence\<close>

lemma format_1f_examples:
  "format_1f 22 = ''22.0''"
  "format_1f 55 = ''55.0''"
  "format_1f (16 / 5) = ''3.2''"
  "format_1f (- 999) = ''-999.0''"
  "format_1f (- 1) = ''-1.0''"
  by (simp_all add: format_1f_def round_half_even_def Let_def str_nat.simps digit_char_def)

text \<open>What \<open>format_1f\<close> prints, read back: an optional minus sign, the digits of a natural
  number without a leading zero, a point and one digit; the number printed is the nearest
  multiple of one tenth to the value, and the even one of the two when the value lies half way.\<close>

lemma digit_val_digit_char: "d < 10 \<Longrightarrow> digit_val (digit_char d) = Some d"
proof -
  assume "d < 10"
  then consider "d = 0" | "d = 1" | "d = 2" | "d = 3" | "d = 4" | "d = 5" | "d = 6" | "d = 7"
    | "d = 8" | "d = 9"
    by atomize_elim arith
  then show ?thesis
    by cases (simp_all add: digit_val_def digit_char_def)
qed

lemma decode_digits_snoc:
  "decode_digits acc (s @ [c]) =
     (case decode_digits acc s of
        None \<Rightarrow> None
      | Some a \<Rightarrow> (case digit_val c of None \<Rightarrow> None | Some d \<Rightarrow> Some (10 * a + d)))"
  by (induction s arbitrary: acc) (simp_all split: option.splits)

lemma decode_digits_str_nat: "decode_digits 0 (str_nat n) = Some n"
proof (induction n rule: str_nat.induct)
  case (1 n)
  show ?case
  proof (cases "n < 10")
    case True
    then show ?thesis
      by (simp add: str_nat.simps [of n] digit_val_digit_char)
  next
    case False
    then have "decode_digits 0 (str_nat (n div 10)) = Some (n div 10)"
      using "1.IH" by simp
    then show ?thesis
      using False
      by (simp add: str_nat.simps [of n] decode_digits_snoc digit_val_digit_char)
  qed
qed

lemma str_nat_not_Nil: "str_nat n \<noteq> []"
  by (simp add: str_nat.simps [of n])

lemma decode_nat_str_nat: "decode_nat (str_nat n) = Some n"
  by (simp add: decode_nat_def str_nat_not_Nil decode_digits_str_nat)

lemma hd_str_nat: "0 < n \<Longrightarrow> \<exists>k. 0 < k \<and> k < 10 \<and> hd (str_nat n) = digit_char k"
proof (induction n rule: str_nat.induct)
  case (1 n)
  show ?case
  proof (cases "n < 10")
    case True
    then show ?thesis
      using "1.prems" by (auto simp: str_nat.simps [of n])
  next
    case False
    then have "0 < n div 10" by simp
    then obtain k where "0 < k" "k < 10" "hd (str_nat (n div 10)) = digit_char k"
      using "1.IH" False by blast
    then show ?thesis
      using False by (auto simp: str_nat.simps [of n] str_nat_not_Nil)
  qed
qed

lemma round_half_even_nearest:
  assumes "0 \<le> y"
  shows "0 \<le> round_half_even y"
    and "\<bar>y - of_int (round_half_even y)\<bar> \<le> 1 / 2"
    and "\<bar>y - of_int (round_half_even y)\<bar> = 1 / 2 \<Longrightarrow> even (round_half_even y)"
proof -
  have f: "of_int \<lfloor>y\<rfloor> \<le> y" "y < of_int \<lfloor>y\<rfloor> + 1"
    by linarith+
  have nn: "0 \<le> \<lfloor>y\<rfloor>" using assms by simp
  show "0 \<le> round_half_even y"
    using nn by (simp add: round_half_even_def Let_def)
  show "\<bar>y - of_int (round_half_even y)\<bar> \<le> 1 / 2"
    using f by (simp add: round_half_even_def Let_def)
  show "even (round_half_even y)" if "\<bar>y - of_int (round_half_even y)\<bar> = 1 / 2"
    using that f by (auto simp: round_half_even_def Let_def split: if_splits)
qed

lemma format_1f_one_decimal:
  "\<exists>ds c i f.
     format_1f x = (if x < 0 then ''-'' else []) @ ds @ ''.'' @ [c]
     \<and> decode_nat ds = Some i \<and> digit_val c = Some f
     \<and> (1 < length ds \<longrightarrow> hd ds \<noteq> CHR ''0'')
     \<and> \<bar>\<bar>x\<bar> - (real i + real f / 10)\<bar> \<le> 1 / 20
     \<and> (\<bar>\<bar>x\<bar> - (real i + real f / 10)\<bar> = 1 / 20 \<longrightarrow> even f)"
proof -
  define n where "n = nat (round_half_even (\<bar>x\<bar> * 10))"
  have y: "0 \<le> \<bar>x\<bar> * 10" by simp
  have n: "real n = of_int (round_half_even (\<bar>x\<bar> * 10))"
    using round_half_even_nearest(1) [OF y] by (simp add: n_def)
  have near: "\<bar>\<bar>x\<bar> * 10 - real n\<bar> \<le> 1 / 2"
    using round_half_even_nearest(2) [OF y] n by simp
  have tie: "even n" if "\<bar>\<bar>x\<bar> * 10 - real n\<bar> = 1 / 2"
    using round_half_even_nearest(3) [OF y] round_half_even_nearest(1) [OF y] that n
    by (simp add: n_def even_nat_iff)
  have split: "real (n div 10) + real (n mod 10) / 10 = real n / 10"
  proof -
    have "real n = real (10 * (n div 10) + n mod 10)" by simp
    then show ?thesis by (simp only: of_nat_add of_nat_mult) simp
  qed
  have fmt: "format_1f x =
      (if x < 0 then ''-'' else []) @ str_nat (n div 10) @ ''.'' @ [digit_char (n mod 10)]"
    by (simp add: format_1f_def Let_def n_def)
  have d: "digit_val (digit_char (n mod 10)) = Some (n mod 10)"
    by (simp add: digit_val_digit_char)
  have lead: "hd (str_nat (n div 10)) \<noteq> CHR ''0''" if "1 < length (str_nat (n div 10))"
  proof -
    have "0 < n div 10"
      using that by (cases "n div 10 = 0") (simp_all add: str_nat.simps [of 0])
    then obtain k where "0 < k" "k < 10" "hd (str_nat (n div 10)) = digit_char k"
      using hd_str_nat by blast
    moreover have "digit_val (digit_char k) = Some k"
      using calculation by (simp add: digit_val_digit_char)
    moreover have "digit_val (CHR ''0'') = Some 0"
      by (simp add: digit_val_def)
    ultimately show ?thesis by auto
  qed
  have dist: "\<bar>\<bar>x\<bar> - (real (n div 10) + real (n mod 10) / 10)\<bar> = \<bar>\<bar>x\<bar> * 10 - real n\<bar> / 10"
    unfolding split by (simp add: field_simps abs_if)
  have "\<bar>\<bar>x\<bar> - (real (n div 10) + real (n mod 10) / 10)\<bar> \<le> 1 / 20"
    using near dist by simp
  moreover have "even (n mod 10)"
    if "\<bar>\<bar>x\<bar> - (real (n div 10) + real (n mod 10) / 10)\<bar> = 1 / 20"
  proof -
    have "\<bar>\<bar>x\<bar> * 10 - real n\<bar> = 1 / 2" using that dist by simp
    then have "even n" by (rule tie)
    then show ?thesis by presburger
  qed
  ultimately show ?thesis
    using fmt d lead decode_nat_str_nat [of "n div 10"] by blast
qed

lemma write_rows_no_fault:
  "file_content fs = Some c \<Longrightarrow>
     write_rows None k rows fs =
       (fs\<lparr>file_content := Some (c @ concat (map format_row rows))\<rparr>, Inr ())"
proof (induction rows arbitrary: k fs c)
  case Nil
  then show ?case by simp
next
  case (Cons row rows)
  have "file_content (fs\<lparr>file_content := Some (c @ format_row row)\<rparr>) = Some (c @ format_row row)"
    by simp
  from Cons.IH [OF this, of "Suc k"] Cons.prems show ?case
    by (simp add: f_write_def)
qed

lemma write_csv_no_fault:
  "write_csv None data fs =
     (\<lparr>dir_exists = True,
       file_content = Some (csv_header @ newline @ concat (map format_row data))\<rparr>, Inr ())"
proof -
  have "file_content (fs\<lparr>dir_exists := True, file_content := Some (csv_header @ newline)\<rparr>)
          = Some (csv_header @ newline)"
    by simp
  from write_rows_no_fault [OF this, of 1 data] show ?thesis
    by (cases fs) (simp add: write_csv_def makedirs_def open_w_def f_write_def)
qed

lemma py_max_Max: "xs \<noteq> [] \<Longrightarrow> py_max xs = Inr (Max (set xs))"
proof (cases xs)
  case Nil
  assume "xs \<noteq> []"
  with Nil show ?thesis by simp
next
  case (Cons x ys)
  have "foldl max x ys = fold max ys x"
    by (simp add: foldl_conv_fold max.commute)
  moreover have "Max (set (x # ys)) = fold max ys x"
    by (rule Max.set_eq_fold)
  ultimately show ?thesis
    using Cons by simp
qed

lemma summary_statistics_value:
  "summary_statistics data =
     Inr (if positive_fills data = [] then []
          else [Log INFO (Max_avg_fill (Max (set (positive_fills data)))
                            (sum_list (positive_fills data) / real (length (positive_fills data))))])"
proof -
  have pf: "map fill_level_of (filter (\<lambda>row. fill_level_of row > 0) data) = positive_fills data"
    by (simp add: positive_fills_def filter_map comp_def)
  show ?thesis
  proof (cases "positive_fills data = []")
    case True
    then show ?thesis by (simp add: summary_statistics_def pf Let_def)
  next
    case False
    then have "data \<noteq> []" by (auto simp: positive_fills_def)
    then show ?thesis
      using False py_max_Max [OF False]
      by (simp add: summary_statistics_def pf Let_def py_mean_def)
  qed
qed

text \<open>
  \<^bold>\<open>C8\<close>. When no operation of the file system fails, saving a non-empty buffer leaves the
  directory existing and the file holding exactly the header \<open>Time,Temp,Hum,FillLevelCM\<close>
  ended by a line feed, followed by one line per record in the order of the buffer: the time
  string, the temperature, the humidity and the fill level, separated by commas and ended by
  a line feed. This holds whatever the file held before and whether or not the directory
  existed. Each of the three numbers is printed with one decimal: an optional minus sign, the
  digits of a natural number without a leading zero, a point and one digit, denoting the
  multiple of one tenth nearest to the value (the even one when the value lies half way
  between two).
\<close>

theorem save_session_data_output:
  assumes "measurement_data m \<noteq> []"
  shows "fst (snd (save_session_data None fs m)) =
           \<lparr>dir_exists = True,
            file_content =
              Some (''Time,Temp,Hum,FillLevelCM'' @ [CHR 0x0A] @
                    concat (map (\<lambda>(time_str, temp, hum, fill).
                                   time_str @ '','' @ format_1f temp @ '','' @ format_1f hum @
                                   '','' @ format_1f fill @ [CHR 0x0A])
                              (measurement_data m)))\<rparr>
         \<and> (\<forall>x. \<exists>ds c i f.
                format_1f x = (if x < 0 then ''-'' else []) @ ds @ ''.'' @ [c]
                \<and> decode_nat ds = Some i \<and> digit_val c = Some f
                \<and> (1 < length ds \<longrightarrow> hd ds \<noteq> CHR ''0'')
                \<and> \<bar>\<bar>x\<bar> - (real i + real f / 10)\<bar> \<le> 1 / 20
                \<and> (\<bar>\<bar>x\<bar> - (real i + real f / 10)\<bar> = 1 / 20 \<longrightarrow> even f))"
proof -
  have row: "format_row =
               (\<lambda>(time_str, temp, hum, fill).
                  time_str @ '','' @ format_1f temp @ '','' @ format_1f hum @
                  '','' @ format_1f fill @ [CHR 0x0A])"
    by (auto simp: fun_eq_iff newline_def)
  have content: "fst (snd (save_session_data None fs m)) =
           \<lparr>dir_exists = True,
            file_content =
              Some (''Time,Temp,Hum,FillLevelCM'' @ [CHR 0x0A] @
                    concat (map (\<lambda>(time_str, temp, hum, fill).
                                   time_str @ '','' @ format_1f temp @ '','' @ format_1f hum @
                                   '','' @ format_1f fill @ [CHR 0x0A])
                              (measurement_data m)))\<rparr>"
    using assms
    by (simp add: save_session_data_def write_csv_no_fault Let_def csv_header_def newline_def
          row)
  from content format_1f_one_decimal show ?thesis
    by blast
qed

text \<open>The buffer of the specification's example, saved where the directory is missing and
  the file holds an older session: three lines, each ended by a line feed.\<close>

theorem save_session_data_output_witness:
  "fst (snd (save_session_data None
               \<lparr>dir_exists = False, file_content = Some ''old session''\<rparr>
               (tea_meter_init\<lparr>measurement_data := example_buffer\<rparr>))) =
     \<lparr>dir_exists = True,
      file_content =
        Some (''Time,Temp,Hum,FillLevelCM'' @ [CHR 0x0A] @
              ''09:00:00,22.0,55.0,3.2'' @ [CHR 0x0A] @
              ''09:00:01,22.0,55.0,-999.0'' @ [CHR 0x0A])\<rparr>"
proof -
  have nonempty: "measurement_data (tea_meter_init\<lparr>measurement_data := example_buffer\<rparr>) \<noteq> []"
    by (simp add: example_buffer_def)
  from save_session_data_output
         [OF nonempty, of "\<lparr>dir_exists = False, file_content = Some ''old session''\<rparr>",
          THEN conjunct1]
  show ?thesis
    by (simp add: example_buffer_def format_1f_examples)
qed

text \<open>
  \<^bold>\<open>C3\<close> (as amended). With an empty buffer \<^verbatim>\<open>save_session_data\<close> writes nothing: state and
  file system are returned as they were and the only action is one log line. With a
  non-empty buffer it first logs the summary heading and the number of all records of the
  buffer. Then, when no operation of the file system fails, the file holds the header line
  and one line per record, success is logged, and one more line is logged with the maximum
  and the mean of exactly the fill levels that are strictly positive, if there is any (no
  such line otherwise). When the write fails, the failure is logged and no maximum or mean
  is logged.
\<close>

theorem save_session_data_summary:
  "(measurement_data m = [] \<longrightarrow>
      save_session_data io fs m = (m, fs, [Log INFO No_data_collected]))
   \<and> (measurement_data m \<noteq> [] \<longrightarrow>
        save_session_data None fs m =
          (m\<lparr>measurement_data := []\<rparr>,
           \<lparr>dir_exists = True,
            file_content =
              Some (csv_header @ newline @ concat (map format_row (measurement_data m)))\<rparr>,
           [Log INFO Session_summary,
            Log INFO (Total_measurements (length (measurement_data m))),
            Log INFO Session_data_saved] @
           (if positive_fills (measurement_data m) = [] then []
            else [Log INFO
                    (Max_avg_fill
                       (Max (set (positive_fills (measurement_data m))))
                       (sum_list (positive_fills (measurement_data m)) /
                        real (length (positive_fills (measurement_data m)))))]))
        \<and> (snd (write_csv io (measurement_data m) fs) \<noteq> Inr () \<longrightarrow>
             snd (snd (save_session_data io fs m)) =
               [Log INFO Session_summary,
                Log INFO (Total_measurements (length (measurement_data m))),
                Log ERROR Could_not_write]))"
proof -
  have empty: "save_session_data io fs m = (m, fs, [Log INFO No_data_collected])"
    if "measurement_data m = []"
    using that by (simp add: save_session_data_def)
  have ok: "save_session_data None fs m =
          (m\<lparr>measurement_data := []\<rparr>,
           \<lparr>dir_exists = True,
            file_content =
              Some (csv_header @ newline @ concat (map format_row (measurement_data m)))\<rparr>,
           [Log INFO Session_summary,
            Log INFO (Total_measurements (length (measurement_data m))),
            Log INFO Session_data_saved] @
           (if positive_fills (measurement_data m) = [] then []
            else [Log INFO
                    (Max_avg_fill
                       (Max (set (positive_fills (measurement_data m))))
                       (sum_list (positive_fills (measurement_data m)) /
                        real (length (positive_fills (measurement_data m)))))]))"
    if "measurement_data m \<noteq> []"
    using that
    by (simp add: save_session_data_def write_csv_no_fault summary_statistics_value Let_def)
  have failed: "snd (snd (save_session_data io fs m)) =
               [Log INFO Session_summary,
                Log INFO (Total_measurements (length (measurement_data m))),
                Log ERROR Could_not_write]"
    if "measurement_data m \<noteq> []" and "snd (write_csv io (measurement_data m) fs) \<noteq> Inr ()"
  proof -
    obtain fs1 res where w: "write_csv io (measurement_data m) fs = (fs1, res)"
      by (cases "write_csv io (measurement_data m) fs")
    with that(2) obtain e where "res = Inl e"
      by (cases res) auto
    with w that(1) show ?thesis
      by (simp add: save_session_data_def Let_def)
  qed
  from empty ok failed show ?thesis by blast
qed

text \<open>The example of the specification: two lines after the header, and statistics over the
  first record only. The same buffer when \<^verbatim>\<open>open\<close> fails: no statistics.\<close>

theorem save_session_data_summary_witness:
  "save_session_data None \<lparr>dir_exists = True, file_content = None\<rparr>
     (tea_meter_init\<lparr>measurement_data := example_buffer\<rparr>) =
     (tea_meter_init\<lparr>measurement_data := []\<rparr>,
      \<lparr>dir_exists = True,
       file_content =
         Some (''Time,Temp,Hum,FillLevelCM'' @ newline @
               ''09:00:00,22.0,55.0,3.2'' @ newline @
               ''09:00:01,22.0,55.0,-999.0'' @ newline)\<rparr>,
      [Log INFO Session_summary, Log INFO (Total_measurements 2), Log INFO Session_data_saved,
       Log INFO (Max_avg_fill (16 / 5) (16 / 5))])
   \<and> save_session_data (Some Open_fails) \<lparr>dir_exists = True, file_content = None\<rparr>
       (tea_meter_init\<lparr>measurement_data := []\<rparr>) =
       (tea_meter_init\<lparr>measurement_data := []\<rparr>, \<lparr>dir_exists = True, file_content = None\<rparr>,
        [Log INFO No_data_collected])
   \<and> snd (snd (save_session_data (Some Open_fails) \<lparr>dir_exists = True, file_content = None\<rparr>
                  (tea_meter_init\<lparr>measurement_data := example_buffer\<rparr>))) =
       [Log INFO Session_summary, Log INFO (Total_measurements 2), Log ERROR Could_not_write]"
  using save_session_data_summary
          [of "tea_meter_init\<lparr>measurement_data := example_buffer\<rparr>" None
              "\<lparr>dir_exists = True, file_content = None\<rparr>"]
        save_session_data_summary
          [of "tea_meter_init\<lparr>measurement_data := []\<rparr>" "Some Open_fails"
              "\<lparr>dir_exists = True, file_content = None\<rparr>"]
        save_session_data_summary
          [of "tea_meter_init\<lparr>measurement_data := example_buffer\<rparr>" "Some Open_fails"
              "\<lparr>dir_exists = True, file_content = None\<rparr>"]
  by (simp add: example_buffer_def format_1f_examples positive_fills_def fill_level_of_def
        write_csv_def makedirs_def open_w_def csv_header_def)

text \<open>The buffer of the example when \<^verbatim>\<open>os.makedirs\<close> fails: the count logged is 2, the number of
  all records and not of those with a positive fill level, and no maximum or mean is logged
  although the first record has a positive fill level; the file is untouched.\<close>

theorem save_session_data_summary_counterexample:
  "save_session_data (Some Makedirs_fails) \<lparr>dir_exists = False, file_content = None\<rparr>
     (tea_meter_init\<lparr>measurement_data := example_buffer\<rparr>) =
     (tea_meter_init\<lparr>measurement_data := []\<rparr>,
      \<lparr>dir_exists = False, file_content = None\<rparr>,
      [Log INFO Session_summary, Log INFO (Total_measurements 2), Log ERROR Could_not_write])
   \<and> positive_fills example_buffer = [16 / 5]"
  by (simp add: save_session_data_def example_buffer_def write_csv_def makedirs_def Let_def
        positive_fills_def fill_level_of_def)

text \<open>
  \<^bold>\<open>C6\<close>. The buffer is empty in the state \<^verbatim>\<open>__init__\<close> builds, and it is empty after every
  call of \<^verbatim>\<open>save_session_data\<close>, whatever the buffer held and whichever operation of the file
  system failed; so it is after the cycle that sees the cup removed, after which the
  session is neither measuring nor has a cup.
\<close>

theorem buffer_empty_after_save:
  "measurement_data tea_meter_init = []
   \<and> measurement_data (fst (save_session_data io fs m)) = []
   \<and> (button inp = 0 \<longrightarrow>
        measurement_data (fst (process_measurement_cycle inp fs m)) = []
        \<and> \<not> is_measuring (fst (process_measurement_cycle inp fs m))
        \<and> \<not> is_cup_present (fst (process_measurement_cycle inp fs m)))"
proof -
  have init: "measurement_data tea_meter_init = []"
    by (simp add: tea_meter_init_def)
  have save: "measurement_data (fst (save_session_data io' fs m')) = []
              \<and> is_measuring (fst (save_session_data io' fs m')) = is_measuring m'
              \<and> is_cup_present (fst (save_session_data io' fs m')) = is_cup_present m'"
    for io' m'
    by (simp add: save_session_data_def Let_def split: prod.splits)
  have "measurement_data (fst (process_measurement_cycle inp fs m)) = []
        \<and> \<not> is_measuring (fst (process_measurement_cycle inp fs m))
        \<and> \<not> is_cup_present (fst (process_measurement_cycle inp fs m))"
    if "button inp = 0"
    using that save [of "fault inp" "m\<lparr>is_cup_present := False, is_measuring := False\<rparr>"]
    by (auto simp: process_measurement_cycle_def split: prod.splits)
  with init save [of io m] show ?thesis by simp
qed

text \<open>A session of two records whose second line cannot be written: the file keeps the
  header and the first line, and the buffer is empty all the same.\<close>

theorem buffer_empty_after_save_witness:
  "process_measurement_cycle
     \<lparr>start_time = 0, current_time_str = ''09:00:02'', button = 0, dht = Dht_raises,
      sonar = Sonar_raises, end_time = 0, fault = Some (Write_fails 2)\<rparr>
     \<lparr>dir_exists = True, file_content = Some ''old session''\<rparr>
     (tea_meter_init\<lparr>measurement_data := example_buffer, is_cup_present := True,
                     is_measuring := True\<rparr>)
   = (tea_meter_init,
      \<lparr>dir_exists = True,
       file_content = Some (''Time,Temp,Hum,FillLevelCM'' @ newline @
                            ''09:00:00,22.0,55.0,3.2'' @ newline)\<rparr>,
      [Read_button, Log INFO Cup_removed, Log INFO Session_summary,
       Log INFO (Total_measurements 2), Log ERROR Could_not_write])"
  using buffer_empty_after_save
          [of "Some (Write_fails 2)" "\<lparr>dir_exists = True, file_content = Some ''old session''\<rparr>"
              "tea_meter_init\<lparr>measurement_data := example_buffer, is_cup_present := True,
                              is_measuring := True\<rparr>"
              "\<lparr>start_time = 0, current_time_str = ''09:00:02'', button = 0, dht = Dht_raises,
                sonar = Sonar_raises, end_time = 0, fault = Some (Write_fails 2)\<rparr>"]
  by (simp add: process_measurement_cycle_def save_session_data_def example_buffer_def
        write_csv_def makedirs_def open_w_def f_write_def format_1f_examples csv_header_def
        tea_meter_init_def Let_def)


text \<open>
  \<^bold>\<open>C5\<close> (as amended). A cycle with the cup present calls the sonar and appends one record.
  Its fill level is \<open>calibrated_empty_cup_distance - d\<close> when the read returns a distance
  \<open>d\<close> that is strictly positive, and the error value -999.0 when the sonar raises or returns a
  distance that is zero or negative, which \<^verbatim>\<open>get_distance_reading\<close> reports as a failed read.
  A record with the error value is written as a line that ends in \<open>,-999.0\<close> and a line
  feed.
\<close>

theorem fill_level_or_error_value:
  assumes "button inp \<noteq> 0"
  shows "Read_sonar \<in> set (snd (snd (process_measurement_cycle inp fs m)))
         \<and> (\<exists>temperature humidity.
              measurement_data (fst (process_measurement_cycle inp fs m)) =
                measurement_data m @
                [(current_time_str inp, temperature, humidity,
                  case sonar inp of
                    Distance d \<Rightarrow>
                      if d > 0 then calibrated_empty_cup_distance m - d else ERROR_VALUE
                  | Sonar_raises \<Rightarrow> ERROR_VALUE)])
         \<and> ERROR_VALUE = - 999
         \<and> format_row (time_str, temp, hum, ERROR_VALUE) =
             time_str @ '','' @ format_1f temp @ '','' @ format_1f hum @ '',-999.0'' @ [CHR 0x0A]"
proof -
  have reads: "Read_sonar \<in> set (snd (snd (process_measurement_cycle inp fs m)))"
    using assms
    by (cases "sonar inp")
       (auto simp: process_measurement_cycle_def get_distance_reading_def Let_def
          split: prod.splits)
  have env: "\<exists>h t m1 acts1.
      (if temp_read_counter m mod TEMP_READ_INTERVAL = 0
       then read_environmental_data (dht inp) m
       else ((last_humidity m, last_temp m), m, [])) = ((h, t), m1, acts1)
      \<and> measurement_data m1 = measurement_data m
      \<and> calibrated_empty_cup_distance m1 = calibrated_empty_cup_distance m"
    by (cases "dht inp") (auto simp: read_environmental_data_def split: option.splits)
  then obtain h t m1 acts1 where e:
    "(if temp_read_counter m mod TEMP_READ_INTERVAL = 0
       then read_environmental_data (dht inp) m
       else ((last_humidity m, last_temp m), m, [])) = ((h, t), m1, acts1)"
    "measurement_data m1 = measurement_data m"
    "calibrated_empty_cup_distance m1 = calibrated_empty_cup_distance m"
    by blast
  have rec: "measurement_data (fst (process_measurement_cycle inp fs m)) =
                measurement_data m @
                [(current_time_str inp, t, h,
                  case sonar inp of
                    Distance d \<Rightarrow>
                      if d > 0 then calibrated_empty_cup_distance m - d else ERROR_VALUE
                  | Sonar_raises \<Rightarrow> ERROR_VALUE)]"
    using assms e
    by (cases "sonar inp")
       (simp_all add: process_measurement_cycle_def get_distance_reading_def Let_def
          calculate_fill_level_def)
  have fmt: "format_row (time_str, temp, hum, ERROR_VALUE) =
             time_str @ '','' @ format_1f temp @ '','' @ format_1f hum @ '',-999.0'' @ [CHR 0x0A]"
    by (simp add: ERROR_VALUE_def format_1f_examples newline_def)
  from reads rec fmt show ?thesis
    by (simp add: ERROR_VALUE_def)
qed


text \<open>With the reference 15: the distance 12 gives the fill level 3, a raising sonar gives
  -999, and the session saved afterwards holds the line \<open>09:00:01,-1.0,-1.0,-999.0\<close>.\<close>

theorem fill_level_or_error_value_witness:
  "measurement_data (fst (process_measurement_cycle
      \<lparr>start_time = 0, current_time_str = ''09:00:00'', button = 1, dht = Dht_raises,
       sonar = Distance 12, end_time = 1, fault = None\<rparr> no_files tea_meter_init))
     = [(''09:00:00'', - 1, - 1, 3)]
   \<and> measurement_data (fst (process_measurement_cycle
      \<lparr>start_time = 0, current_time_str = ''09:00:01'', button = 1, dht = Dht_raises,
       sonar = Sonar_raises, end_time = 1, fault = None\<rparr> no_files tea_meter_init))
     = [(''09:00:01'', - 1, - 1, - 999)]
   \<and> file_content (fst (snd (save_session_data None no_files
        (tea_meter_init\<lparr>measurement_data := [(''09:00:01'', - 1, - 1, ERROR_VALUE)]\<rparr>))))
     = Some (''Time,Temp,Hum,FillLevelCM'' @ [CHR 0x0A] @
             ''09:00:01,-1.0,-1.0,-999.0'' @ [CHR 0x0A])"
proof -
  have present: "button \<lparr>start_time = 0, current_time_str = ''09:00:00'', button = 1,
                   dht = Dht_raises, sonar = Distance 12, end_time = 1, fault = None\<rparr> \<noteq> 0"
    "button \<lparr>start_time = 0, current_time_str = ''09:00:01'', button = 1,
                   dht = Dht_raises, sonar = Sonar_raises, end_time = 1, fault = None\<rparr> \<noteq> 0"
    by simp_all
  have cache: "process_measurement_cycle
      \<lparr>start_time = 0, current_time_str = t, button = 1, dht = Dht_raises,
       sonar = r, end_time = 1, fault = None\<rparr> no_files tea_meter_init
     = (tea_meter_init\<lparr>temp_read_counter := 1,
          measurement_data :=
            [(t, - 1, - 1, case fst (get_distance_reading r) of
                             None \<Rightarrow> ERROR_VALUE | Some d \<Rightarrow> 15 - d)]\<rparr>, no_files,
        [Read_button, Read_dht, Log ERROR Dht_sensor_error] @ snd (get_distance_reading r) @
        [Log INFO (Cycle_status (- 1) (- 1)
                     (case fst (get_distance_reading r) of
                        None \<Rightarrow> ERROR_VALUE | Some d \<Rightarrow> 15 - d))])"
    for t r
    by (auto simp: process_measurement_cycle_def read_environmental_data_def
          calculate_fill_level_def tea_meter_init_def Let_def TEMP_READ_INTERVAL_def
          DEFAULT_DISTANCE_TO_EMPTY_CUP_BOTTOM_CM_def sleep_time_def MIN_READING_INTERVAL_S_def
          split: prod.splits option.splits)
  have saved: "file_content (fst (snd (save_session_data None no_files
        (tea_meter_init\<lparr>measurement_data := [(''09:00:01'', - 1, - 1, ERROR_VALUE)]\<rparr>))))
     = Some (''Time,Temp,Hum,FillLevelCM'' @ [CHR 0x0A] @
             ''09:00:01,-1.0,-1.0,-999.0'' @ [CHR 0x0A])"
    using fill_level_or_error_value [OF present(2), of no_files tea_meter_init "''09:00:01''" "- 1" "- 1"]
    by (simp add: save_session_data_def write_csv_no_fault format_1f_examples csv_header_def
          Let_def newline_def)
  have "\<exists>temperature humidity.
          measurement_data (fst (process_measurement_cycle
            \<lparr>start_time = 0, current_time_str = ''09:00:00'', button = 1, dht = Dht_raises,
             sonar = Distance 12, end_time = 1, fault = None\<rparr> no_files tea_meter_init))
          = [(''09:00:00'', temperature, humidity, 3)]"
    using fill_level_or_error_value [OF present(1), of no_files tea_meter_init "''09:00:01''" "- 1" "- 1"]
    by (simp add: tea_meter_init_def DEFAULT_DISTANCE_TO_EMPTY_CUP_BOTTOM_CM_def)
  then have first: "measurement_data (fst (process_measurement_cycle
            \<lparr>start_time = 0, current_time_str = ''09:00:00'', button = 1, dht = Dht_raises,
             sonar = Distance 12, end_time = 1, fault = None\<rparr> no_files tea_meter_init))
          = [(''09:00:00'', - 1, - 1, 3)]"
    by (simp add: cache)
  have "\<exists>temperature humidity.
          measurement_data (fst (process_measurement_cycle
            \<lparr>start_time = 0, current_time_str = ''09:00:01'', button = 1, dht = Dht_raises,
             sonar = Sonar_raises, end_time = 1, fault = None\<rparr> no_files tea_meter_init))
          = [(''09:00:01'', temperature, humidity, - 999)]"
    using fill_level_or_error_value [OF present(2), of no_files tea_meter_init "''09:00:01''" "- 1" "- 1"]
    by (simp add: tea_meter_init_def)
  then have second: "measurement_data (fst (process_measurement_cycle
            \<lparr>start_time = 0, current_time_str = ''09:00:01'', button = 1, dht = Dht_raises,
             sonar = Sonar_raises, end_time = 1, fault = None\<rparr> no_files tea_meter_init))
          = [(''09:00:01'', - 1, - 1, - 999)]"
    by (simp add: cache)
  from first second saved show ?thesis by simp
qed


text \<open>A read that returns the distance 0 without raising is non-error and non-negative, yet
  the record holds the error value -999, where the reference minus the distance is 15.\<close>

theorem fill_level_zero_reading_counterexample:
  "measurement_data (fst (process_measurement_cycle zero_cycle no_files tea_meter_init))
     = [(''09:00:00'', - 1, - 1, - 999)]
   \<and> spec_fill_level (calibrated_empty_cup_distance tea_meter_init) (sonar zero_cycle) = 15"
  by (simp add: zero_cycle_def process_measurement_cycle_def read_environmental_data_def
        get_distance_reading_def tea_meter_init_def Let_def TEMP_READ_INTERVAL_def
        DEFAULT_DISTANCE_TO_EMPTY_CUP_BOTTOM_CM_def ERROR_VALUE_def spec_fill_level_def)

subsection \<open>The environmental cache before the first DHT value\<close>

lemma calibrate_empty_cup_returns:
  "\<exists>ok ref acts.
     calibrate_empty_cup sonar_at m = Inr (ok, m\<lparr>calibrated_empty_cup_distance := ref\<rparr>, acts)"
proof -
  obtain ds acts where loop:
    "foldl (calibration_read sonar_at) ([], [Log INFO Calibrating]) [0..<CALIBRATION_READS]
       = (ds, acts)"
    by (cases "foldl (calibration_read sonar_at) ([], [Log INFO Calibrating])
                 [0..<CALIBRATION_READS]")
  show ?thesis
    unfolding calibrate_empty_cup_def loop
    by (auto simp: py_mean_def)
qed

lemma wait_for_cup_keeps_cache:
  "\<exists>m' acts. wait_for_cup b sonar_at m = Inr (m', acts)
     \<and> last_temp m' = last_temp m \<and> last_humidity m' = last_humidity m
     \<and> measurement_data m' = measurement_data m"
proof (cases "b = 1")
  case True
  obtain ok ref acts where
    "calibrate_empty_cup sonar_at (m\<lparr>is_cup_present := True\<rparr>) =
       Inr (ok, m\<lparr>is_cup_present := True\<rparr>\<lparr>calibrated_empty_cup_distance := ref\<rparr>, acts)"
    using calibrate_empty_cup_returns [of sonar_at "m\<lparr>is_cup_present := True\<rparr>"] by blast
  with True show ?thesis
    by (simp add: wait_for_cup_def)
next
  case False
  then show ?thesis by (simp add: wait_for_cup_def)
qed

lemma save_session_data_keeps_cache:
  "last_temp (fst (save_session_data io fs m)) = last_temp m
   \<and> last_humidity (fst (save_session_data io fs m)) = last_humidity m
   \<and> measurement_data (fst (save_session_data io fs m)) = []"
  by (simp add: save_session_data_def Let_def split: prod.splits)

lemma cycle_keeps_no_dht_value_yet:
  assumes "no_dht_value_yet m" and "dht_failed (dht inp)"
  shows "no_dht_value_yet (fst (process_measurement_cycle inp fs m))"
proof (cases "button inp = 0")
  case True
  then show ?thesis
    using assms(1)
          save_session_data_keeps_cache
            [of "fault inp" fs "m\<lparr>is_cup_present := False, is_measuring := False\<rparr>"]
    by (auto simp: process_measurement_cycle_def no_dht_value_yet_def split: prod.splits)
next
  case False
  then show ?thesis
    using assms
    by (auto simp: process_measurement_cycle_def no_dht_value_yet_def Let_def
          read_environmental_data_failed split: prod.splits)
qed

lemma run_iteration_keeps_no_dht_value_yet:
  assumes "no_dht_value_yet m" and "dht_failed (dht (cycle inp))"
  shows "\<exists>m' fs' acts. run_iteration inp fs m = Inr (m', fs', acts) \<and> no_dht_value_yet m'"
proof -
  obtain m1 acts1 where w:
    "(if \<not> is_cup_present m then
        (case wait_for_cup (wait_button inp) (calibration_sonar inp) m of
           Inl e \<Rightarrow> Inl e
         | Inr (m1, acts) \<Rightarrow> Inr (m1, acts @ [Sleep (1 / 10)]))
      else Inr (m, [])) = Inr (m1, acts1)"
    "no_dht_value_yet m1"
    using wait_for_cup_keeps_cache [of "wait_button inp" "calibration_sonar inp" m] assms(1)
    by (cases "is_cup_present m") (auto simp: no_dht_value_yet_def)
  show ?thesis
  proof (cases "is_measuring m1")
    case True
    obtain m2 fs2 acts2 where c: "process_measurement_cycle (cycle inp) fs m1 = (m2, fs2, acts2)"
      by (cases "process_measurement_cycle (cycle inp) fs m1") auto
    then have "no_dht_value_yet m2"
      using cycle_keeps_no_dht_value_yet [OF w(2) assms(2), of fs] by simp
    then show ?thesis
      using True c by (simp add: run_iteration_def w(1))
  next
    case False
    then show ?thesis
      using w(2) by (simp add: run_iteration_def w(1))
  qed
qed

lemma run_loop_keeps_no_dht_value_yet:
  assumes "no_dht_value_yet m" and "\<forall>inp \<in> set inps. dht_failed (dht (cycle inp))"
  shows "\<exists>m' fs' acts. run_loop inps fs m = Inr (m', fs', acts) \<and> no_dht_value_yet m'"
  using assms
proof (induction inps arbitrary: m fs)
  case Nil
  then show ?case by simp
next
  case (Cons inp inps)
  obtain m1 fs1 acts1 where
    it: "run_iteration inp fs m = Inr (m1, fs1, acts1)" and inv: "no_dht_value_yet m1"
    using run_iteration_keeps_no_dht_value_yet [of m inp fs] Cons.prems by auto
  obtain m2 fs2 acts2 where
    "run_loop inps fs1 m1 = Inr (m2, fs2, acts2)" "no_dht_value_yet m2"
    using Cons.IH [OF inv, of fs1] Cons.prems(2) by auto
  then show ?case
    using it by simp
qed

text \<open>
  \<^bold>\<open>C10\<close>. \<^verbatim>\<open>__init__\<close> sets the cached temperature and humidity to -1.0. After any number of
  passes of the main loop in which no DHT read gave a value, the cache still holds -1.0 and
  -1.0 and so does every record in the buffer; a further cycle with the cup present whose
  DHT read is throttled away or fails appends a record with temperature -1.0 and humidity
  -1.0. A cycle whose DHT read really returns -1.0 and -1.0 leaves the same state, and the
  value is printed as \<open>-1.0\<close> in either case.
\<close>

theorem records_before_first_dht_value:
  assumes "\<forall>inp \<in> set inps. dht_failed (dht (cycle inp))"
  shows "last_temp tea_meter_init = - 1 \<and> last_humidity tea_meter_init = - 1
         \<and> (\<exists>m1 fs1 acts1.
              run_loop inps fs tea_meter_init = Inr (m1, fs1, acts1)
              \<and> no_dht_value_yet m1
              \<and> (button c \<noteq> 0 \<and> dht_failed (dht c) \<longrightarrow>
                   (\<exists>fill_level.
                      measurement_data (fst (process_measurement_cycle c fs1 m1)) =
                        measurement_data m1 @ [(current_time_str c, - 1, - 1, fill_level)])
                   \<and> fst (process_measurement_cycle
                            (c\<lparr>dht := Dht_values (Some (- 1)) (Some (- 1))\<rparr>) fs1 m1)
                       = fst (process_measurement_cycle c fs1 m1)))
         \<and> format_1f (- 1) = ''-1.0''"
proof -
  have init: "no_dht_value_yet tea_meter_init"
    by (simp add: no_dht_value_yet_def tea_meter_init_def)
  obtain m1 fs1 acts1 where
    run: "run_loop inps fs tea_meter_init = Inr (m1, fs1, acts1)" and inv: "no_dht_value_yet m1"
    using run_loop_keeps_no_dht_value_yet [OF init assms, of fs] by auto
  have cache: "last_temp m1 = - 1" "last_humidity m1 = - 1"
    using inv by (simp_all add: no_dht_value_yet_def)
  have appended: "\<exists>fill_level.
                      measurement_data (fst (process_measurement_cycle c fs1 m1)) =
                        measurement_data m1 @ [(current_time_str c, - 1, - 1, fill_level)]"
    if "button c \<noteq> 0" "dht_failed (dht c)"
    using that cache
    by (auto simp: process_measurement_cycle_def Let_def read_environmental_data_failed
          split: prod.splits)
  have unchanged: "m1\<lparr>last_humidity := - 1, last_temp := - 1\<rparr> = m1"
    using cache by (cases m1) simp
  have genuine:
    "read_environmental_data (Dht_values (Some (- 1)) (Some (- 1))) m1 = ((- 1, - 1), m1, [Read_dht])"
    by (simp add: read_environmental_data_def unchanged)
  have same: "fst (process_measurement_cycle
                     (c\<lparr>dht := Dht_values (Some (- 1)) (Some (- 1))\<rparr>) fs1 m1)
                = fst (process_measurement_cycle c fs1 m1)"
    if "button c \<noteq> 0" "dht_failed (dht c)"
    using that cache
    by (auto simp: process_measurement_cycle_def Let_def read_environmental_data_failed genuine
          split: prod.splits)
  show ?thesis
    using run inv appended same
    by (simp add: tea_meter_init_def format_1f_examples)
qed


text \<open>A run: the cup is put down, calibration gives the reference 15, the first cycle meets
  a raising DHT sensor, the second cycle is throttled. Both records carry -1.0 and -1.0.\<close>

theorem records_before_first_dht_value_witness:
  "dht_failed (dht (cycle first_pass))
   \<and> (\<exists>m1 fs1 acts1.
        run_loop [first_pass] no_files tea_meter_init = Inr (m1, fs1, acts1)
        \<and> measurement_data m1 = [(''09:00:00'', - 1, - 1, 3)]
        \<and> (\<exists>fill_level.
              measurement_data (fst (process_measurement_cycle second_cycle fs1 m1)) =
                [(''09:00:00'', - 1, - 1, 3), (''09:00:01'', - 1, - 1, fill_level)]))"
proof -
  have hyp: "\<forall>inp \<in> set [first_pass]. dht_failed (dht (cycle inp))"
    by (simp add: first_pass_def)
  have calibrated: "\<exists>acts. calibrate_empty_cup (calibration_sonar first_pass)
                      (tea_meter_init\<lparr>is_cup_present := True\<rparr>)
                    = Inr (True, tea_meter_init\<lparr>is_cup_present := True\<rparr>, acts)"
    by (simp add: first_pass_def calibrate_empty_cup_def CALIBRATION_READS_def eval_nat_numeral
          calibration_read_def get_distance_reading_def replay_def py_mean_def tea_meter_init_def
          DEFAULT_DISTANCE_TO_EMPTY_CUP_BOTTOM_CM_def)
  then obtain acts0 where c:
    "calibrate_empty_cup (calibration_sonar first_pass) (tea_meter_init\<lparr>is_cup_present := True\<rparr>)
       = Inr (True, tea_meter_init\<lparr>is_cup_present := True\<rparr>, acts0)"
    by blast
  have waited: "\<exists>acts. wait_for_cup (wait_button first_pass) (calibration_sonar first_pass)
                          tea_meter_init
                = Inr (tea_meter_init\<lparr>is_cup_present := True, is_measuring := True\<rparr>, acts)"
    using c by (simp add: wait_for_cup_def first_pass_def tea_meter_init_def)
  then obtain acts1 where w:
    "wait_for_cup (wait_button first_pass) (calibration_sonar first_pass) tea_meter_init
       = Inr (tea_meter_init\<lparr>is_cup_present := True, is_measuring := True\<rparr>, acts1)"
    by blast
  have "\<exists>acts. process_measurement_cycle (cycle first_pass) no_files
                  (tea_meter_init\<lparr>is_cup_present := True, is_measuring := True\<rparr>)
                = (tea_meter_init\<lparr>is_cup_present := True, is_measuring := True,
                     temp_read_counter := 1, measurement_data := [(''09:00:00'', - 1, - 1, 3)]\<rparr>,
                   no_files, acts)"
    by (simp add: first_pass_def process_measurement_cycle_def read_environmental_data_def
          get_distance_reading_def calculate_fill_level_def tea_meter_init_def Let_def
          TEMP_READ_INTERVAL_def DEFAULT_DISTANCE_TO_EMPTY_CUP_BOTTOM_CM_def)
  then obtain acts3 where cycled:
    "process_measurement_cycle (cycle first_pass) no_files
       (tea_meter_init\<lparr>is_cup_present := True, is_measuring := True\<rparr>)
     = (tea_meter_init\<lparr>is_cup_present := True, is_measuring := True,
          temp_read_counter := 1, measurement_data := [(''09:00:00'', - 1, - 1, 3)]\<rparr>,
        no_files, acts3)"
    by blast
  have "is_cup_present tea_meter_init = False"
    by (simp add: tea_meter_init_def)
  then have run: "\<exists>acts. run_loop [first_pass] no_files tea_meter_init
               = Inr (tea_meter_init\<lparr>is_cup_present := True, is_measuring := True,
                        temp_read_counter := 1,
                        measurement_data := [(''09:00:00'', - 1, - 1, 3)]\<rparr>, no_files, acts)"
    by (simp add: run_iteration_def w cycled)
  then obtain acts2 where r:
    "run_loop [first_pass] no_files tea_meter_init
       = Inr (tea_meter_init\<lparr>is_cup_present := True, is_measuring := True,
                temp_read_counter := 1,
                measurement_data := [(''09:00:00'', - 1, - 1, 3)]\<rparr>, no_files, acts2)"
    by blast
  have second: "button second_cycle \<noteq> 0 \<and> dht_failed (dht second_cycle)"
    by (simp add: second_cycle_def)
  from records_before_first_dht_value [OF hyp, of no_files second_cycle]
  obtain m1 fs1 acts1 where
    a: "run_loop [first_pass] no_files tea_meter_init = Inr (m1, fs1, acts1)" and
    b: "button second_cycle \<noteq> 0 \<and> dht_failed (dht second_cycle) \<longrightarrow>
          (\<exists>fill_level.
             measurement_data (fst (process_measurement_cycle second_cycle fs1 m1)) =
               measurement_data m1 @ [(current_time_str second_cycle, - 1, - 1, fill_level)])"
    by blast
  from trans [OF a [symmetric] r] have m1: "measurement_data m1 = [(''09:00:00'', - 1, - 1, 3)]"
    by simp
  from b second obtain fill_level where
    "measurement_data (fst (process_measurement_cycle second_cycle fs1 m1)) =
       measurement_data m1 @ [(current_time_str second_cycle, - 1, - 1, fill_level)]"
    by blast
  then have "measurement_data (fst (process_measurement_cycle second_cycle fs1 m1)) =
       [(''09:00:00'', - 1, - 1, 3), (''09:00:01'', - 1, - 1, fill_level)]"
    by (simp add: m1 second_cycle_def)
  moreover have "dht_failed (dht (cycle first_pass))"
    using hyp by simp
  ultimately show ?thesis
    using a m1 by blast
qed

end
